theory Spec2Isabelle
  imports Main
begin

section \<open>JavaScript values\<close>

text \<open>
  The two Lambda handlers of the repository (module \<open>ecs-task-update\<close>, called variant 1
  below, and module \<open>ecs-task-container-update\<close>, variant 2) receive a JSON event and
  talk to the ECS client of the AWS SDK. Every value they touch is a JSON value, or
  \<open>undefined\<close> where a property is absent. An object is its list of properties in
  insertion order.

  The handlers never compute with a number: they test it for truthiness, compare it with
  \<open>===\<close> and convert it to a string. A number is therefore kept as the text that
  \<open>Number.prototype.toString\<close> gives for it (\<open>42\<close>, \<open>1.5\<close>, \<open>1e+21\<close>,
  \<open>Infinity\<close>, \<open>NaN\<close>). That text determines the number up to the sign of zero
  (both zeros print as \<open>0\<close>), which none of the three operations observes. A text that
  no number prints as stands for no value of the program.
\<close>

datatype jsval =
    JUndefined
  | JNull
  | JBool bool
  | JNum string
  | JStr string
  | JArr "jsval list"
  | JObj "(string \<times> jsval) list"

text \<open>
  What a handler can be left with instead of a value: a \<open>TypeError\<close> of the runtime
  (a property read on \<open>undefined\<close> or \<open>null\<close>, a call of something that is not a
  function, an object that cannot be converted to a primitive), a value thrown by the
  code itself (\<open>throw errors\<close>), or the reason an ECS call was rejected with.
\<close>

datatype failure = TypeError | Thrown jsval | Rejected jsval

definition and_then :: "failure + 'a \<Rightarrow> ('a \<Rightarrow> failure + 'b) \<Rightarrow> failure + 'b" where
  "and_then r f = (case r of Inl e \<Rightarrow> Inl e | Inr v \<Rightarrow> f v)"

text \<open>
  Truthiness, as \<open>x ? a : b\<close>, \<open>x || d\<close> and \<open>!x\<close> test it. The falsy numbers are
  the zeros and \<open>NaN\<close>.
\<close>

fun truthy :: "jsval \<Rightarrow> bool" where
  "truthy JUndefined = False"
| "truthy JNull = False"
| "truthy (JBool b) = b"
| "truthy (JNum n) = (n \<noteq> ''0'' \<and> n \<noteq> ''NaN'')"
| "truthy (JStr s) = (s \<noteq> [])"
| "truthy (JArr xs) = True"
| "truthy (JObj kvs) = True"

definition js_or :: "jsval \<Rightarrow> jsval \<Rightarrow> jsval" where
  "js_or a b = (if truthy a then a else b)"

fun nullish :: "jsval \<Rightarrow> bool" where
  "nullish JUndefined = True"
| "nullish JNull = True"
| "nullish v = False"

text \<open>
  \<open>a === b\<close>. Primitives compare by value; \<open>NaN\<close> equals nothing, itself included,
  and the two zeros are equal. Arrays and objects compare by reference; the only
  comparison of the program has a value of an ECS response on the left and a value of
  the event on the right, which are never the same reference.
\<close>

fun strict_eq :: "jsval \<Rightarrow> jsval \<Rightarrow> bool" where
  "strict_eq JUndefined b = (b = JUndefined)"
| "strict_eq JNull b = (b = JNull)"
| "strict_eq (JBool x) b = (b = JBool x)"
| "strict_eq (JNum n) b = (b = JNum n \<and> n \<noteq> ''NaN'')"
| "strict_eq (JStr s) b = (b = JStr s)"
| "strict_eq (JArr xs) b = False"
| "strict_eq (JObj kvs) b = False"

text \<open>
  \<open>v.k\<close> and \<open>v[k]\<close> for the property names the program reads (\<open>service\<close>,
  \<open>taskDefinition\<close>, \<open>name\<close>, ...; none is an index, \<open>length\<close> or a built-in
  method): an own property of an object, \<open>undefined\<close> on an object without it and on
  a primitive or an array, a \<open>TypeError\<close> on \<open>undefined\<close> and \<open>null\<close>.
\<close>

fun lookup_prop :: "jsval \<Rightarrow> string \<Rightarrow> jsval" where
  "lookup_prop (JObj kvs) k = (case map_of kvs k of Some v \<Rightarrow> v | None \<Rightarrow> JUndefined)"
| "lookup_prop v k = JUndefined"

definition get_prop :: "jsval \<Rightarrow> string \<Rightarrow> failure + jsval" where
  "get_prop v k = (if nullish v then Inl TypeError else Inr (lookup_prop v k))"

text \<open>\<open>v[0]\<close>: the first element of an array, the first character of a string.\<close>

fun get_first :: "jsval \<Rightarrow> failure + jsval" where
  "get_first JUndefined = Inl TypeError"
| "get_first JNull = Inl TypeError"
| "get_first (JArr []) = Inr JUndefined"
| "get_first (JArr (x # xs)) = Inr x"
| "get_first (JStr []) = Inr JUndefined"
| "get_first (JStr (c # cs)) = Inr (JStr [c])"
| "get_first (JObj kvs) = Inr (lookup_prop (JObj kvs) ''0'')"
| "get_first (JBool b) = Inr JUndefined"
| "get_first (JNum n) = Inr JUndefined"

text \<open>
  \<open>o.k = v\<close> on an object: an existing property keeps its place, a new one goes last.
\<close>

fun assign :: "(string \<times> jsval) list \<Rightarrow> string \<Rightarrow> jsval \<Rightarrow> (string \<times> jsval) list" where
  "assign [] k v = [(k, v)]"
| "assign ((k', v') # kvs) k v =
     (if k' = k then (k, v) # kvs else (k', v') # assign kvs k v)"

text \<open>
  \<open>c.k = v\<close> on any value, giving what \<open>c\<close> is afterwards. Neither module is in
  strict mode, so the assignment to a property of a primitive is dropped silently. A
  named property put on an array is not one of its elements, which is all the value
  type keeps of an array.
\<close>

fun set_prop :: "jsval \<Rightarrow> string \<Rightarrow> jsval \<Rightarrow> failure + jsval" where
  "set_prop JUndefined k v = Inl TypeError"
| "set_prop JNull k v = Inl TypeError"
| "set_prop (JObj kvs) k v = Inr (JObj (assign kvs k v))"
| "set_prop c k v = Inr c"

text \<open>
  The conversion to a string that \<open>+\<close> applies to the operand beside a string, and
  \<open>join\<close> to the elements of an array. A primitive prints as itself. An array prints
  its elements separated by commas, \<open>undefined\<close> and \<open>null\<close> elements as nothing. An
  object is converted through its \<open>valueOf\<close> and \<open>toString\<close> methods: the inherited
  \<open>valueOf\<close> returns the object itself, which is no primitive, and the inherited
  \<open>toString\<close> gives \<open>[object Object]\<close>; an own property of a JSON object is never a
  function, so an object with an own \<open>toString\<close> property has no method left that
  yields a primitive, and the conversion throws a \<open>TypeError\<close>. An own \<open>valueOf\<close>
  property only removes a method that yielded none.
\<close>

fun to_string :: "jsval \<Rightarrow> failure + string"
  and join_elements :: "jsval list \<Rightarrow> failure + string" where
  "to_string JUndefined = Inr ''undefined''"
| "to_string JNull = Inr ''null''"
| "to_string (JBool b) = Inr (if b then ''true'' else ''false'')"
| "to_string (JNum n) = Inr n"
| "to_string (JStr s) = Inr s"
| "to_string (JArr xs) = join_elements xs"
| "to_string (JObj kvs) =
     (if map_of kvs ''toString'' = None then Inr ''[object Object]'' else Inl TypeError)"
| "join_elements [] = Inr []"
| "join_elements [x] = (if nullish x then Inr [] else to_string x)"
| "join_elements (x # y # ys) =
     and_then (if nullish x then Inr [] else to_string x) (\<lambda>s.
     and_then (join_elements (y # ys)) (\<lambda>rest.
       Inr (s @ '','' @ rest)))"

text \<open>
  \<open>a + b\<close> where one operand is a string: the concatenation of both as strings, the
  left operand converted first.
\<close>

definition string_plus :: "jsval \<Rightarrow> jsval \<Rightarrow> failure + jsval" where
  "string_plus a b =
     and_then (to_string a) (\<lambda>sa.
     and_then (to_string b) (\<lambda>sb.
       Inr (JStr (sa @ sb))))"

section \<open>The ECS client\<close>

text \<open>
  The four operations the handlers call, each with its parameter object. The client is
  the environment: a function from a request and the state of the world to the outcome
  of the call (\<open>Inl\<close> the reason of a rejection, \<open>Inr\<close> the response data) and the
  world afterwards. Nothing is assumed about it.
\<close>

datatype request =
    DescribeServices jsval
  | DescribeTaskDefinition jsval
  | RegisterTaskDefinition jsval
  | UpdateService jsval

type_synonym 'w ecs = "request \<Rightarrow> 'w \<Rightarrow> (jsval + jsval) \<times> 'w"

text \<open>
  A promise is run from the world and the log of the requests sent so far; it settles
  with a failure or a value. \<open>call\<close> is \<open>ecs.operation(params).promise()\<close>,
  \<open>then_promise\<close> is \<open>.then(f)\<close>: a rejection skips \<open>f\<close>, and a \<open>throw\<close> inside
  \<open>f\<close> rejects the chain (\<open>rejected\<close>).
\<close>

type_synonym ('w, 'a) promise = "'w \<times> request list \<Rightarrow> (failure + 'a) \<times> 'w \<times> request list"

definition settle :: "jsval + jsval \<Rightarrow> failure + jsval" where
  "settle r = (case r of Inl reason \<Rightarrow> Inl (Rejected reason) | Inr data \<Rightarrow> Inr data)"

definition call :: "'w ecs \<Rightarrow> request \<Rightarrow> ('w, jsval) promise" where
  "call ecs req = (\<lambda>(w, log).
     case ecs req w of (r, w') \<Rightarrow> (settle r, w', log @ [req]))"

definition rejected :: "failure \<Rightarrow> ('w, 'a) promise" where
  "rejected e = (\<lambda>s. (Inl e, s))"

definition then_promise :: "('w, 'a) promise \<Rightarrow> ('a \<Rightarrow> ('w, 'b) promise) \<Rightarrow> ('w, 'b) promise" where
  "then_promise m f = (\<lambda>s.
     case m s of
       (Inl e, s') \<Rightarrow> (Inl e, s')
     | (Inr v, s') \<Rightarrow> f v s')"

section \<open>What both modules share\<close>

text \<open>
  The parameter object. Both constructors set \<open>cluster\<close>, \<open>service\<close>,
  \<open>containerName\<close>, \<open>imageBase\<close>, \<open>imageTag\<close> and \<open>image\<close> (here \<open>image_field\<close>);
  variant 1 adds \<open>taskDefinition\<close>, variant 2 \<open>taskFamily\<close>.
\<close>

record DeployParams =
  cluster :: jsval
  service :: jsval
  containerName :: jsval
  imageBase :: jsval
  imageTag :: jsval
  image_field :: jsval

record DeployParams_v1 = DeployParams +
  taskDefinition :: jsval

record DeployParams_v2 = DeployParams +
  taskFamily :: jsval

text \<open>
  \<open>requiredParams.map(it => event[it] ? null : it + " is required.").filter(it => it)\<close>
\<close>

definition required_errors :: "string list \<Rightarrow> jsval \<Rightarrow> jsval list" where
  "required_errors requiredParams event =
     filter truthy
       (map (\<lambda>it. if truthy (lookup_prop event it) then JNull else JStr (it @ '' is required.''))
          requiredParams)"

text \<open>
  \<open>containerTransformer(toMatch, newImage)\<close>, the same text in both modules. It
  assigns to the container it is given; the model returns the container as it is
  afterwards. The response object that held it is not read again.
\<close>

definition containerTransformer :: "jsval \<Rightarrow> jsval \<Rightarrow> jsval \<Rightarrow> failure + jsval" where
  "containerTransformer toMatch newImage container =
     and_then (get_prop container ''name'') (\<lambda>name.
       if strict_eq name toMatch then set_prop container ''image'' newImage
       else Inr container)"

text \<open>
  \<open>v.map(f)\<close>: only an array has a \<open>map\<close> to call; the first element \<open>f\<close> throws
  at ends the call.
\<close>

fun map_elements :: "('a \<Rightarrow> failure + 'b) \<Rightarrow> 'a list \<Rightarrow> failure + 'b list" where
  "map_elements f [] = Inr []"
| "map_elements f (x # xs) =
     and_then (f x) (\<lambda>y. and_then (map_elements f xs) (\<lambda>ys. Inr (y # ys)))"

fun array_map :: "(jsval \<Rightarrow> failure + jsval) \<Rightarrow> jsval \<Rightarrow> failure + jsval" where
  "array_map f (JArr xs) = and_then (map_elements f xs) (\<lambda>ys. Inr (JArr ys))"
| "array_map f v = Inl TypeError"

text \<open>
  \<open>updateTask\<close>, the same text in both modules: first the parameter object of
  \<open>registerTaskDefinition\<close> is evaluated, which can throw, then the call is made.
\<close>

definition registerTaskDefinition_params ::
  "'a DeployParams_scheme \<Rightarrow> jsval \<Rightarrow> failure + jsval" where
  "registerTaskDefinition_params p result =
     and_then (get_prop result ''taskDefinition'') (\<lambda>task.
     and_then (get_prop task ''family'') (\<lambda>family.
     and_then (get_prop task ''volumes'') (\<lambda>volumes.
     and_then (get_prop task ''taskRoleArn'') (\<lambda>taskRoleArn.
     and_then (get_prop task ''containerDefinitions'') (\<lambda>containerDefinitions.
     and_then (array_map (containerTransformer (containerName p) (image_field p))
                 containerDefinitions) (\<lambda>containers.
       Inr (JObj [(''family'', family),
                  (''volumes'', volumes),
                  (''taskRoleArn'', taskRoleArn),
                  (''containerDefinitions'', containers)])))))))"

definition updateTask :: "'w ecs \<Rightarrow> 'a DeployParams_scheme \<Rightarrow> jsval \<Rightarrow> ('w, jsval) promise" where
  "updateTask ecs p result =
     (case registerTaskDefinition_params p result of
        Inl e \<Rightarrow> rejected e
      | Inr params \<Rightarrow> call ecs (RegisterTaskDefinition params))"

text \<open>\<open>updateService\<close>, the same text in both modules.\<close>

definition updateService_params :: "'a DeployParams_scheme \<Rightarrow> jsval \<Rightarrow> failure + jsval" where
  "updateService_params p result =
     and_then (get_prop result ''taskDefinition'') (\<lambda>task.
     and_then (get_prop task ''taskDefinitionArn'') (\<lambda>taskDefinitionArn.
       Inr (JObj [(''cluster'', cluster p),
                  (''service'', service p),
                  (''taskDefinition'', taskDefinitionArn)])))"

definition updateService :: "'w ecs \<Rightarrow> 'a DeployParams_scheme \<Rightarrow> jsval \<Rightarrow> ('w, jsval) promise" where
  "updateService ecs p result =
     (case updateService_params p result of
        Inl e \<Rightarrow> rejected e
      | Inr params \<Rightarrow> call ecs (UpdateService params))"

section \<open>Variant 1: module ecs-task-update\<close>

definition requiredParams_v1 :: "string list" where
  "requiredParams_v1 = [''service'', ''taskDefinition'', ''containerName'', ''imageBase'']"

text \<open>
  \<open>new DeployParams(event)\<close>. \<open>event[it]\<close> on a \<open>null\<close> event is a \<open>TypeError\<close>,
  and so is \<open>this.imageBase+":"+this.imageTag\<close>, the last statement of the
  constructor, on a value that has no string; the handler's \<open>catch\<close> receives either
  like the thrown array of messages.
\<close>

definition DeployParams_v1 :: "jsval \<Rightarrow> failure + DeployParams_v1" where
  "DeployParams_v1 event =
     (if nullish event then Inl TypeError
      else let errors = required_errors requiredParams_v1 event in
        if length errors > 0 then Inl (Thrown (JArr errors))
        else
          let imageBase = lookup_prop event ''imageBase'';
              imageTag = js_or (lookup_prop event ''imageTag'') (JStr ''latest'')
          in
            and_then (string_plus imageBase (JStr '':'')) (\<lambda>base_colon.
            and_then (string_plus base_colon imageTag) (\<lambda>image.
              Inr \<lparr> cluster = js_or (lookup_prop event ''cluster'') (JStr ''default''),
                    service = lookup_prop event ''service'',
                    containerName = lookup_prop event ''containerName'',
                    imageBase = imageBase,
                    imageTag = imageTag,
                    image_field = image,
                    taskDefinition = lookup_prop event ''taskDefinition'' \<rparr>)))"

definition describeService :: "'w ecs \<Rightarrow> 'a DeployParams_scheme \<Rightarrow> ('w, jsval) promise" where
  "describeService ecs p =
     call ecs (DescribeServices (JObj [(''cluster'', cluster p),
                                       (''services'', JArr [service p])]))"

text \<open>\<open>result.services[0].taskDefinition\<close>, then the call.\<close>

definition describeTask_v1_params :: "jsval \<Rightarrow> failure + jsval" where
  "describeTask_v1_params result =
     and_then (get_prop result ''services'') (\<lambda>services.
     and_then (get_first services) (\<lambda>first.
     and_then (get_prop first ''taskDefinition'') (\<lambda>td.
       Inr (JObj [(''taskDefinition'', td)]))))"

definition describeTask_v1 :: "'w ecs \<Rightarrow> 'a DeployParams_scheme \<Rightarrow> jsval \<Rightarrow> ('w, jsval) promise" where
  "describeTask_v1 ecs p result =
     (case describeTask_v1_params result of
        Inl e \<Rightarrow> rejected e
      | Inr params \<Rightarrow> call ecs (DescribeTaskDefinition params))"

text \<open>
  \<open>promised(callback, promise)\<close> hands the settled chain to the Lambda callback:
  \<open>callback(null, value)\<close> is \<open>Inr value\<close>, \<open>callback(error)\<close> is \<open>Inl error\<close>.
  The handler's result is what the callback received, the world, and the requests sent.
\<close>

definition promised :: "('w, jsval) promise \<Rightarrow> 'w \<Rightarrow> (failure + jsval) \<times> 'w \<times> request list" where
  "promised promise w = promise (w, [])"

definition handler_v1 :: "'w ecs \<Rightarrow> jsval \<Rightarrow> 'w \<Rightarrow> (failure + jsval) \<times> 'w \<times> request list" where
  "handler_v1 ecs event w =
     (case DeployParams_v1 event of
        Inl e \<Rightarrow> (Inl e, w, [])
      | Inr p \<Rightarrow>
          promised
            (then_promise
               (then_promise
                  (then_promise (describeService ecs p) (describeTask_v1 ecs p))
                  (updateTask ecs p))
               (updateService ecs p)) w)"

section \<open>Variant 2: module ecs-task-container-update\<close>

definition requiredParams_v2 :: "string list" where
  "requiredParams_v2 = [''taskFamily'', ''containerName'', ''imageBase'']"

text \<open>
  \<open>new DeployParams(event)\<close> of variant 2. The image is computed before the cluster
  is looked at, so the \<open>TypeError\<close> of the concatenation comes before the error about
  a cluster without a service.
\<close>

definition DeployParams_v2 :: "jsval \<Rightarrow> failure + DeployParams_v2" where
  "DeployParams_v2 event =
     (if nullish event then Inl TypeError
      else let errors = required_errors requiredParams_v2 event in
        if length errors > 0 then Inl (Thrown (JArr errors))
        else
          let imageBase = lookup_prop event ''imageBase'';
              imageTag = js_or (lookup_prop event ''imageTag'') (JStr ''latest'')
          in
            and_then (string_plus imageBase (JStr '':'')) (\<lambda>base_colon.
            and_then (string_plus base_colon imageTag) (\<lambda>image.
              if truthy (lookup_prop event ''cluster'') \<and> \<not> truthy (lookup_prop event ''service'')
              then Inl (Thrown (JArr [JStr ''service is required when cluster is specified'']))
              else Inr \<lparr> cluster = js_or (lookup_prop event ''cluster'') (JStr ''default''),
                         service = lookup_prop event ''service'',
                         containerName = lookup_prop event ''containerName'',
                         imageBase = imageBase,
                         imageTag = imageTag,
                         image_field = image,
                         taskFamily = lookup_prop event ''taskFamily'' \<rparr>)))"

definition describeTask_v2 :: "'w ecs \<Rightarrow> DeployParams_v2 \<Rightarrow> ('w, jsval) promise" where
  "describeTask_v2 ecs p =
     call ecs (DescribeTaskDefinition (JObj [(''taskDefinition'', taskFamily p)]))"

definition buildPromise :: "'w ecs \<Rightarrow> DeployParams_v2 \<Rightarrow> ('w, jsval) promise" where
  "buildPromise ecs p =
     (let taskUpdate = then_promise (describeTask_v2 ecs p) (updateTask ecs p)
      in if \<not> truthy (service p) then taskUpdate
         else then_promise taskUpdate (updateService ecs p))"

text \<open>
  The handler adapts the chain to the callback itself,
  \<open>buildPromise(p).then(callback.bind(null, null)).catch(callback)\<close>, which is what
  \<open>promised\<close> does in variant 1.
\<close>

definition handler_v2 :: "'w ecs \<Rightarrow> jsval \<Rightarrow> 'w \<Rightarrow> (failure + jsval) \<times> 'w \<times> request list" where
  "handler_v2 ecs event w =
     (case DeployParams_v2 event of
        Inl e \<Rightarrow> (Inl e, w, [])
      | Inr p \<Rightarrow> promised (buildPromise ecs p) w)"

section \<open>Sample data\<close>

text \<open>
  A task definition with two containers, as \<open>describeTaskDefinition\<close> returns one, and
  an ECS client that answers every call: \<open>describeServices\<close> with the services it is
  given, \<open>describeTaskDefinition\<close> with the sample task, \<open>registerTaskDefinition\<close>
  with the registered fields under a new ARN, \<open>updateService\<close> with the request. Its
  world counts the calls.
\<close>

definition sample_web :: "(string \<times> jsval) list" where
  "sample_web = [(''name'', JStr ''web''), (''image'', JStr ''repo/app:v1''), (''cpu'', JNum ''10'')]"

definition sample_log :: "(string \<times> jsval) list" where
  "sample_log = [(''name'', JStr ''log''), (''image'', JStr ''fluentd'')]"

definition sample_task :: "(string \<times> jsval) list" where
  "sample_task =
     [(''taskDefinitionArn'', JStr ''arn:app:3''),
      (''containerDefinitions'', JArr [JObj sample_web, JObj sample_log]),
      (''family'', JStr ''app''),
      (''taskRoleArn'', JStr ''role''),
      (''revision'', JNum ''3''),
      (''volumes'', JArr []),
      (''status'', JStr ''ACTIVE'')]"

definition sample_ecs :: "jsval list \<Rightarrow> nat ecs" where
  "sample_ecs services req w =
     (case req of
        DescribeServices params \<Rightarrow>
          (Inr (JObj [(''services'', JArr services), (''failures'', JArr [])]), Suc w)
      | DescribeTaskDefinition params \<Rightarrow>
          (Inr (JObj [(''taskDefinition'', JObj sample_task)]), Suc w)
      | RegisterTaskDefinition params \<Rightarrow>
          (Inr (JObj [(''taskDefinition'',
                  JObj [(''taskDefinitionArn'', JStr ''arn:app:4''), (''registered'', params)])]),
           Suc w)
      | UpdateService params \<Rightarrow>
          (Inr (JObj [(''service'', params)]), Suc w))"

definition sample_service :: jsval where
  "sample_service = JObj [(''serviceName'', JStr ''svc''), (''taskDefinition'', JStr ''arn:app:3'')]"

section \<open>Basic facts\<close>


lemma and_then_Inl [simp]: "and_then (Inl e) f = Inl e"
  by (simp add: and_then_def)

lemma and_then_Inr [simp]: "and_then (Inr v) f = f v"
  by (simp add: and_then_def)

lemma get_prop_JObj [simp]: "get_prop (JObj kvs) k = Inr (lookup_prop (JObj kvs) k)"
  by (simp add: get_prop_def)

lemma get_prop_JUndefined [simp]: "get_prop JUndefined k = Inl TypeError"
  by (simp add: get_prop_def)

lemma get_prop_JNull [simp]: "get_prop JNull k = Inl TypeError"
  by (simp add: get_prop_def)

lemma lookup_assign_same: "lookup_prop (JObj (assign c k v)) k = v"
  by (induction c k v rule: assign.induct) simp_all

lemma lookup_assign_other:
  "k' \<noteq> k \<Longrightarrow> lookup_prop (JObj (assign c k v)) k' = lookup_prop (JObj c) k'"
  by (induction c k v rule: assign.induct) simp_all

section \<open>The container rewrite\<close>

lemma containerTransformer_JObj:
  "containerTransformer X img (JObj c) =
     Inr (JObj (if strict_eq (lookup_prop (JObj c) ''name'') X then assign c ''image'' img else c))"
  by (simp add: containerTransformer_def)

lemma map_elements_containers:
  "map_elements (containerTransformer X img) (map JObj cs) =
     Inr (map JObj (map (\<lambda>c. if strict_eq (lookup_prop (JObj c) ''name'') X
                               then assign c ''image'' img else c) cs))"
  by (induction cs) (simp_all add: containerTransformer_JObj)

lemma map_if_none: "\<forall>x\<in>set xs. \<not> P x \<Longrightarrow> map (\<lambda>x. if P x then g x else x) xs = xs"
  by (induction xs) simp_all

lemma map_if_one:
  "length (filter P xs) = 1 \<Longrightarrow>
   \<exists>i<length xs. P (xs ! i) \<and> (\<forall>j<length xs. j \<noteq> i \<longrightarrow> \<not> P (xs ! j)) \<and>
      map (\<lambda>x. if P x then g x else x) xs = xs[i := g (xs ! i)]"
proof (induction xs)
  case Nil
  then show ?case by simp
next
  case (Cons x xs)
  show ?case
  proof (cases "P x")
    case True
    with Cons.prems have "filter P xs = []" by simp
    then have none: "\<forall>y\<in>set xs. \<not> P y" by (simp add: filter_empty_conv)
    then have "map (\<lambda>x. if P x then g x else x) xs = xs" by (rule map_if_none)
    moreover have "\<forall>j<length (x # xs). j \<noteq> 0 \<longrightarrow> \<not> P ((x # xs) ! j)"
      using none by (auto simp: nth_Cons split: nat.splits)
    ultimately show ?thesis using True by (intro exI[of _ 0]) simp
  next
    case False
    with Cons.prems have "length (filter P xs) = 1" by simp
    from Cons.IH[OF this] obtain i where i: "i < length xs" "P (xs ! i)"
      "\<forall>j<length xs. j \<noteq> i \<longrightarrow> \<not> P (xs ! j)"
      "map (\<lambda>x. if P x then g x else x) xs = xs[i := g (xs ! i)]" by blast
    have "\<forall>j<length (x # xs). j \<noteq> Suc i \<longrightarrow> \<not> P ((x # xs) ! j)"
      using i(3) False by (auto simp: nth_Cons split: nat.splits)
    then show ?thesis using i False by (intro exI[of _ "Suc i"]) simp
  qed
qed

text \<open>
  C1. A list of containers of which exactly one has the target name \<open>X\<close> (compared as
  \<open>container.name === toMatch\<close> compares) is rewritten without error into a list of
  the same length and order: the container at the one matching position \<open>i\<close> has had
  \<open>image\<close> assigned, every other position holds the container it held. After the
  assignment \<open>image\<close> is the new image and every other property of that container
  reads as before.
\<close>

theorem rewrite_changes_only_the_named_container:
  assumes "length (filter (\<lambda>c. strict_eq (lookup_prop (JObj c) ''name'') X) cs) = 1"
  shows "\<exists>i<length cs.
           strict_eq (lookup_prop (JObj (cs ! i)) ''name'') X \<and>
           (\<forall>j<length cs. j \<noteq> i \<longrightarrow> \<not> strict_eq (lookup_prop (JObj (cs ! j)) ''name'') X) \<and>
           array_map (containerTransformer X img) (JArr (map JObj cs)) =
             Inr (JArr (map JObj (cs[i := assign (cs ! i) ''image'' img]))) \<and>
           length (cs[i := assign (cs ! i) ''image'' img]) = length cs \<and>
           lookup_prop (JObj (assign (cs ! i) ''image'' img)) ''image'' = img \<and>
           (\<forall>k. k \<noteq> ''image'' \<longrightarrow>
              lookup_prop (JObj (assign (cs ! i) ''image'' img)) k = lookup_prop (JObj (cs ! i)) k)"
proof -
  from map_if_one[OF assms, of "\<lambda>c. assign c ''image'' img"]
  obtain i where i: "i < length cs" "strict_eq (lookup_prop (JObj (cs ! i)) ''name'') X"
    "\<forall>j<length cs. j \<noteq> i \<longrightarrow> \<not> strict_eq (lookup_prop (JObj (cs ! j)) ''name'') X"
    "map (\<lambda>c. if strict_eq (lookup_prop (JObj c) ''name'') X then assign c ''image'' img else c) cs
       = cs[i := assign (cs ! i) ''image'' img]" by blast
  have "array_map (containerTransformer X img) (JArr (map JObj cs)) =
             Inr (JArr (map JObj (cs[i := assign (cs ! i) ''image'' img])))"
    by (simp only: array_map.simps map_elements_containers i(4) and_then_Inr)
  moreover have "length (cs[i := assign (cs ! i) ''image'' img]) = length cs"
    by simp
  ultimately show ?thesis
    using i(1,2,3) lookup_assign_same lookup_assign_other by blast
qed

theorem rewrite_changes_only_the_named_container_witness:
  "length (filter (\<lambda>c. strict_eq (lookup_prop (JObj c) ''name'') (JStr ''web''))
      [sample_log, sample_web]) = 1 \<and>
   array_map (containerTransformer (JStr ''web'') (JStr ''repo/app:v2''))
      (JArr [JObj sample_log, JObj sample_web]) =
     Inr (JArr [JObj sample_log,
                JObj [(''name'', JStr ''web''), (''image'', JStr ''repo/app:v2''), (''cpu'', JNum ''10'')]])"
proof -
  let ?cs = "[sample_log, sample_web]"
  have h: "length (filter (\<lambda>c. strict_eq (lookup_prop (JObj c) ''name'') (JStr ''web'')) ?cs) = 1"
    by (simp add: sample_log_def sample_web_def)
  from rewrite_changes_only_the_named_container[OF h, of "JStr ''repo/app:v2''"]
  obtain i where i: "i < length ?cs"
    "strict_eq (lookup_prop (JObj (?cs ! i)) ''name'') (JStr ''web'')"
    "array_map (containerTransformer (JStr ''web'') (JStr ''repo/app:v2'')) (JArr (map JObj ?cs)) =
       Inr (JArr (map JObj (?cs[i := assign (?cs ! i) ''image'' (JStr ''repo/app:v2'')])))"
    by blast
  from i(1) have "i = 0 \<or> i = 1" by auto
  with i(2) have "i = 1" by (auto simp: sample_log_def)
  with i(3) have "array_map (containerTransformer (JStr ''web'') (JStr ''repo/app:v2''))
      (JArr [JObj sample_log, JObj sample_web]) =
     Inr (JArr [JObj sample_log,
                JObj [(''name'', JStr ''web''), (''image'', JStr ''repo/app:v2''), (''cpu'', JNum ''10'')]])"
    by (simp add: sample_web_def)
  with h show ?thesis by (rule conjI)
qed

text \<open>
  C6. When no container of the list has the target name, the rewrite returns the list as
  it was, and returns it: no error is raised.
\<close>

theorem rewrite_without_match_is_identity:
  assumes "\<forall>c\<in>set cs. \<not> strict_eq (lookup_prop (JObj c) ''name'') X"
  shows "array_map (containerTransformer X img) (JArr (map JObj cs)) = Inr (JArr (map JObj cs))"
  using assms by (simp add: map_elements_containers map_if_none)

theorem rewrite_without_match_is_identity_witness:
  "array_map (containerTransformer (JStr ''db'') (JStr ''repo/db:v2''))
      (JArr [JObj sample_web, JObj sample_log]) = Inr (JArr [JObj sample_web, JObj sample_log])"
proof -
  have h: "\<forall>c\<in>set [sample_web, sample_log]. \<not> strict_eq (lookup_prop (JObj c) ''name'') (JStr ''db'')"
    by (simp add: sample_web_def sample_log_def)
  from rewrite_without_match_is_identity[OF h, of "JStr ''repo/db:v2''"] show ?thesis by simp
qed

section \<open>Validation\<close>

lemma required_errors_eq:
  "required_errors rp event =
     map (\<lambda>f. JStr (f @ '' is required.'')) (filter (\<lambda>f. \<not> truthy (lookup_prop event f)) rp)"
  by (induction rp) (simp_all add: required_errors_def)

lemma image_concatenation:
  "and_then (string_plus a (JStr '':'')) (\<lambda>base_colon. and_then (string_plus base_colon t) f) =
     and_then (to_string a) (\<lambda>sa. and_then (to_string t) (\<lambda>st. f (JStr (sa @ '':'' @ st))))"
  by (simp add: string_plus_def and_then_def split: sum.splits)

lemma falsy_has_a_string: "\<not> truthy v \<Longrightarrow> \<exists>s. to_string v = Inr s"
  by (cases v) simp_all

lemma DeployParams_v1_Inr:
  assumes "DeployParams_v1 event = Inr p"
  shows "\<exists>b t. to_string (lookup_prop event ''imageBase'') = Inr b \<and>
               to_string (js_or (lookup_prop event ''imageTag'') (JStr ''latest'')) = Inr t \<and>
               p = \<lparr> cluster = js_or (lookup_prop event ''cluster'') (JStr ''default''),
                     service = lookup_prop event ''service'',
                     containerName = lookup_prop event ''containerName'',
                     imageBase = lookup_prop event ''imageBase'',
                     imageTag = js_or (lookup_prop event ''imageTag'') (JStr ''latest''),
                     image_field = JStr (b @ '':'' @ t),
                     taskDefinition = lookup_prop event ''taskDefinition'' \<rparr>"
  using assms unfolding DeployParams_v1_def Let_def image_concatenation
  by (auto simp: and_then_def split: if_splits sum.splits)

lemma DeployParams_v2_Inr:
  assumes "DeployParams_v2 event = Inr p"
  shows "\<exists>b t. to_string (lookup_prop event ''imageBase'') = Inr b \<and>
               to_string (js_or (lookup_prop event ''imageTag'') (JStr ''latest'')) = Inr t \<and>
               p = \<lparr> cluster = js_or (lookup_prop event ''cluster'') (JStr ''default''),
                     service = lookup_prop event ''service'',
                     containerName = lookup_prop event ''containerName'',
                     imageBase = lookup_prop event ''imageBase'',
                     imageTag = js_or (lookup_prop event ''imageTag'') (JStr ''latest''),
                     image_field = JStr (b @ '':'' @ t),
                     taskFamily = lookup_prop event ''taskFamily'' \<rparr>"
  using assms unfolding DeployParams_v2_def Let_def image_concatenation
  by (auto simp: and_then_def split: if_splits sum.splits)

lemma primitive_text:
  "(case v of JStr s \<Rightarrow> Some s | JNum n \<Rightarrow> Some n
            | JBool x \<Rightarrow> Some (if x then ''true'' else ''false'') | _ \<Rightarrow> None) = Some s
   \<Longrightarrow> to_string v = Inr s"
  by (cases v) auto

lemma DeployParams_v1_image_failure:
  assumes "to_string (lookup_prop event ''imageBase'') = Inl e \<or>
         to_string (js_or (lookup_prop event ''imageTag'') (JStr ''latest'')) = Inl e"
  shows "\<exists>e'. DeployParams_v1 event = Inl e'"
proof (cases "DeployParams_v1 event")
  case (Inl e')
  then show ?thesis by blast
next
  case (Inr p)
  from DeployParams_v1_Inr[OF Inr] assms show ?thesis by auto
qed

lemma DeployParams_v2_image_failure:
  assumes "to_string (lookup_prop event ''imageBase'') = Inl e \<or>
         to_string (js_or (lookup_prop event ''imageTag'') (JStr ''latest'')) = Inl e"
  shows "\<exists>e'. DeployParams_v2 event = Inl e'"
proof (cases "DeployParams_v2 event")
  case (Inl e')
  then show ?thesis by blast
next
  case (Inr p)
  from DeployParams_v2_Inr[OF Inr] assms show ?thesis by auto
qed

text \<open>
  C2. Whenever either constructor returns a parameter object \<open>p\<close>, its \<open>imageBase\<close>
  is the event's, its \<open>imageTag\<close> is the event's when that is truthy and \<open>"latest"\<close>
  otherwise (so when the event has none), its \<open>cluster\<close> is the event's when that is
  truthy and \<open>"default"\<close> otherwise, and its \<open>image\<close> is \<open>imageBase + ":" + imageTag\<close>
  of its own fields: both have a string, and the image is the first, a colon and the
  second. For the strings the fields are documented to be, the image is the
  concatenation of the two fields around the colon; a number contributes its decimal
  text and a boolean \<open>true\<close> or \<open>false\<close>.
\<close>

theorem image_is_base_colon_tag:
  "(DeployParams_v1 event = Inr p \<longrightarrow>
      (\<exists>b t. to_string (imageBase p) = Inr b \<and> to_string (imageTag p) = Inr t \<and>
             image_field p = JStr (b @ '':'' @ t)) \<and>
      (\<forall>b t. imageBase p = JStr b \<longrightarrow> imageTag p = JStr t \<longrightarrow>
             image_field p = JStr (b @ '':'' @ t)) \<and>
      (\<forall>b t.
         (case imageBase p of JStr s \<Rightarrow> Some s | JNum n \<Rightarrow> Some n
            | JBool x \<Rightarrow> Some (if x then ''true'' else ''false'') | _ \<Rightarrow> None) = Some b \<longrightarrow>
         (case imageTag p of JStr s \<Rightarrow> Some s | JNum n \<Rightarrow> Some n
            | JBool x \<Rightarrow> Some (if x then ''true'' else ''false'') | _ \<Rightarrow> None) = Some t \<longrightarrow>
         image_field p = JStr (b @ '':'' @ t)) \<and>
      imageBase p = lookup_prop event ''imageBase'' \<and>
      imageTag p = (if truthy (lookup_prop event ''imageTag'')
                    then lookup_prop event ''imageTag'' else JStr ''latest'') \<and>
      cluster p = (if truthy (lookup_prop event ''cluster'')
                   then lookup_prop event ''cluster'' else JStr ''default'')) \<and>
   (DeployParams_v2 event = Inr q \<longrightarrow>
      (\<exists>b t. to_string (imageBase q) = Inr b \<and> to_string (imageTag q) = Inr t \<and>
             image_field q = JStr (b @ '':'' @ t)) \<and>
      (\<forall>b t. imageBase q = JStr b \<longrightarrow> imageTag q = JStr t \<longrightarrow>
             image_field q = JStr (b @ '':'' @ t)) \<and>
      (\<forall>b t.
         (case imageBase q of JStr s \<Rightarrow> Some s | JNum n \<Rightarrow> Some n
            | JBool x \<Rightarrow> Some (if x then ''true'' else ''false'') | _ \<Rightarrow> None) = Some b \<longrightarrow>
         (case imageTag q of JStr s \<Rightarrow> Some s | JNum n \<Rightarrow> Some n
            | JBool x \<Rightarrow> Some (if x then ''true'' else ''false'') | _ \<Rightarrow> None) = Some t \<longrightarrow>
         image_field q = JStr (b @ '':'' @ t)) \<and>
      imageBase q = lookup_prop event ''imageBase'' \<and>
      imageTag q = (if truthy (lookup_prop event ''imageTag'')
                    then lookup_prop event ''imageTag'' else JStr ''latest'') \<and>
      cluster q = (if truthy (lookup_prop event ''cluster'')
                   then lookup_prop event ''cluster'' else JStr ''default''))"
proof (intro conjI impI)
  assume v: "DeployParams_v1 event = Inr p"
  from DeployParams_v1_Inr[OF v] obtain b t where
    b: "to_string (lookup_prop event ''imageBase'') = Inr b" and
    t: "to_string (js_or (lookup_prop event ''imageTag'') (JStr ''latest'')) = Inr t" and
    r: "p = \<lparr> cluster = js_or (lookup_prop event ''cluster'') (JStr ''default''),
               service = lookup_prop event ''service'',
               containerName = lookup_prop event ''containerName'',
               imageBase = lookup_prop event ''imageBase'',
               imageTag = js_or (lookup_prop event ''imageTag'') (JStr ''latest''),
               image_field = JStr (b @ '':'' @ t),
               taskDefinition = lookup_prop event ''taskDefinition'' \<rparr>"
    by blast
  have fields: "imageBase p = lookup_prop event ''imageBase''"
    "imageTag p = js_or (lookup_prop event ''imageTag'') (JStr ''latest'')"
    "cluster p = js_or (lookup_prop event ''cluster'') (JStr ''default'')"
    "image_field p = JStr (b @ '':'' @ t)"
    by (subst r, simp)+
  show "\<exists>b t. to_string (imageBase p) = Inr b \<and> to_string (imageTag p) = Inr t \<and>
             image_field p = JStr (b @ '':'' @ t)"
    using b t fields by simp
  show "\<forall>b t. imageBase p = JStr b \<longrightarrow> imageTag p = JStr t \<longrightarrow>
             image_field p = JStr (b @ '':'' @ t)"
  proof (intro allI impI)
    fix b' t'
    assume sb: "imageBase p = JStr b'" and st: "imageTag p = JStr t'"
    have "to_string (imageBase p) = Inr b" and "to_string (imageTag p) = Inr t"
      by (simp_all add: fields b t)
    then have "b = b'" and "t = t'"
      unfolding sb st by simp_all
    with fields(4) show "image_field p = JStr (b' @ '':'' @ t')"
      by simp
  qed
  show "\<forall>b t.
         (case imageBase p of JStr s \<Rightarrow> Some s | JNum n \<Rightarrow> Some n
            | JBool x \<Rightarrow> Some (if x then ''true'' else ''false'') | _ \<Rightarrow> None) = Some b \<longrightarrow>
         (case imageTag p of JStr s \<Rightarrow> Some s | JNum n \<Rightarrow> Some n
            | JBool x \<Rightarrow> Some (if x then ''true'' else ''false'') | _ \<Rightarrow> None) = Some t \<longrightarrow>
         image_field p = JStr (b @ '':'' @ t)"
  proof (intro allI impI)
    fix b' t'
    assume "(case imageBase p of JStr s \<Rightarrow> Some s | JNum n \<Rightarrow> Some n
            | JBool x \<Rightarrow> Some (if x then ''true'' else ''false'') | _ \<Rightarrow> None) = Some b'"
      and "(case imageTag p of JStr s \<Rightarrow> Some s | JNum n \<Rightarrow> Some n
            | JBool x \<Rightarrow> Some (if x then ''true'' else ''false'') | _ \<Rightarrow> None) = Some t'"
    then have "to_string (imageBase p) = Inr b'" and "to_string (imageTag p) = Inr t'"
      by (simp_all add: primitive_text)
    moreover have "to_string (imageBase p) = Inr b" and "to_string (imageTag p) = Inr t"
      by (simp_all add: fields b t)
    ultimately have "b = b'" and "t = t'"
      by simp_all
    with fields(4) show "image_field p = JStr (b' @ '':'' @ t')"
      by simp
  qed
  show "imageBase p = lookup_prop event ''imageBase''"
    by (rule fields)
  show "imageTag p = (if truthy (lookup_prop event ''imageTag'')
                       then lookup_prop event ''imageTag'' else JStr ''latest'')"
    using fields(2) by (simp add: js_or_def)
  show "cluster p = (if truthy (lookup_prop event ''cluster'')
                      then lookup_prop event ''cluster'' else JStr ''default'')"
    using fields(3) by (simp add: js_or_def)
next
  assume v: "DeployParams_v2 event = Inr q"
  from DeployParams_v2_Inr[OF v] obtain b t where
    b: "to_string (lookup_prop event ''imageBase'') = Inr b" and
    t: "to_string (js_or (lookup_prop event ''imageTag'') (JStr ''latest'')) = Inr t" and
    r: "q = \<lparr> cluster = js_or (lookup_prop event ''cluster'') (JStr ''default''),
               service = lookup_prop event ''service'',
               containerName = lookup_prop event ''containerName'',
               imageBase = lookup_prop event ''imageBase'',
               imageTag = js_or (lookup_prop event ''imageTag'') (JStr ''latest''),
               image_field = JStr (b @ '':'' @ t),
               taskFamily = lookup_prop event ''taskFamily'' \<rparr>"
    by blast
  have fields: "imageBase q = lookup_prop event ''imageBase''"
    "imageTag q = js_or (lookup_prop event ''imageTag'') (JStr ''latest'')"
    "cluster q = js_or (lookup_prop event ''cluster'') (JStr ''default'')"
    "image_field q = JStr (b @ '':'' @ t)"
    by (subst r, simp)+
  show "\<exists>b t. to_string (imageBase q) = Inr b \<and> to_string (imageTag q) = Inr t \<and>
             image_field q = JStr (b @ '':'' @ t)"
    using b t fields by simp
  show "\<forall>b t. imageBase q = JStr b \<longrightarrow> imageTag q = JStr t \<longrightarrow>
             image_field q = JStr (b @ '':'' @ t)"
  proof (intro allI impI)
    fix b' t'
    assume sb: "imageBase q = JStr b'" and st: "imageTag q = JStr t'"
    have "to_string (imageBase q) = Inr b" and "to_string (imageTag q) = Inr t"
      by (simp_all add: fields b t)
    then have "b = b'" and "t = t'"
      unfolding sb st by simp_all
    with fields(4) show "image_field q = JStr (b' @ '':'' @ t')"
      by simp
  qed
  show "\<forall>b t.
         (case imageBase q of JStr s \<Rightarrow> Some s | JNum n \<Rightarrow> Some n
            | JBool x \<Rightarrow> Some (if x then ''true'' else ''false'') | _ \<Rightarrow> None) = Some b \<longrightarrow>
         (case imageTag q of JStr s \<Rightarrow> Some s | JNum n \<Rightarrow> Some n
            | JBool x \<Rightarrow> Some (if x then ''true'' else ''false'') | _ \<Rightarrow> None) = Some t \<longrightarrow>
         image_field q = JStr (b @ '':'' @ t)"
  proof (intro allI impI)
    fix b' t'
    assume "(case imageBase q of JStr s \<Rightarrow> Some s | JNum n \<Rightarrow> Some n
            | JBool x \<Rightarrow> Some (if x then ''true'' else ''false'') | _ \<Rightarrow> None) = Some b'"
      and "(case imageTag q of JStr s \<Rightarrow> Some s | JNum n \<Rightarrow> Some n
            | JBool x \<Rightarrow> Some (if x then ''true'' else ''false'') | _ \<Rightarrow> None) = Some t'"
    then have "to_string (imageBase q) = Inr b'" and "to_string (imageTag q) = Inr t'"
      by (simp_all add: primitive_text)
    moreover have "to_string (imageBase q) = Inr b" and "to_string (imageTag q) = Inr t"
      by (simp_all add: fields b t)
    ultimately have "b = b'" and "t = t'"
      by simp_all
    with fields(4) show "image_field q = JStr (b' @ '':'' @ t')"
      by simp
  qed
  show "imageBase q = lookup_prop event ''imageBase''"
    by (rule fields)
  show "imageTag q = (if truthy (lookup_prop event ''imageTag'')
                       then lookup_prop event ''imageTag'' else JStr ''latest'')"
    using fields(2) by (simp add: js_or_def)
  show "cluster q = (if truthy (lookup_prop event ''cluster'')
                      then lookup_prop event ''cluster'' else JStr ''default'')"
    using fields(3) by (simp add: js_or_def)
qed
theorem image_is_base_colon_tag_witness:
  "DeployParams_v1 (JObj [(''service'', JStr ''svc''), (''taskDefinition'', JStr ''app:3''),
                          (''containerName'', JStr ''web''), (''imageBase'', JStr ''repo/app'')]) =
     Inr \<lparr> cluster = JStr ''default'', service = JStr ''svc'', containerName = JStr ''web'',
           imageBase = JStr ''repo/app'', imageTag = JStr ''latest'',
           image_field = JStr ''repo/app:latest'', taskDefinition = JStr ''app:3'' \<rparr> \<and>
   DeployParams_v2 (JObj [(''taskFamily'', JStr ''app''), (''containerName'', JStr ''web''),
                          (''imageBase'', JStr ''repo/app''), (''imageTag'', JNum ''1e+21'')]) =
     Inr \<lparr> cluster = JStr ''default'', service = JUndefined, containerName = JStr ''web'',
           imageBase = JStr ''repo/app'', imageTag = JNum ''1e+21'',
           image_field = JStr ''repo/app:1e+21'', taskFamily = JStr ''app'' \<rparr> \<and>
   DeployParams_v2 (JObj [(''taskFamily'', JStr ''app''), (''containerName'', JStr ''web''),
                          (''imageBase'', JArr [JStr ''a'', JNull, JNum ''2'', JBool False,
                                                JArr [JBool True, JUndefined]]),
                          (''imageTag'', JObj [(''valueOf'', JStr ''v'')])]) =
     Inr \<lparr> cluster = JStr ''default'', service = JUndefined, containerName = JStr ''web'',
           imageBase = JArr [JStr ''a'', JNull, JNum ''2'', JBool False,
                             JArr [JBool True, JUndefined]],
           imageTag = JObj [(''valueOf'', JStr ''v'')],
           image_field = JStr ''a,,2,false,true,:[object Object]'', taskFamily = JStr ''app'' \<rparr>"
proof -
  let ?e1 = "JObj [(''service'', JStr ''svc''), (''taskDefinition'', JStr ''app:3''),
                   (''containerName'', JStr ''web''), (''imageBase'', JStr ''repo/app'')]"
  let ?e2 = "JObj [(''taskFamily'', JStr ''app''), (''containerName'', JStr ''web''),
                   (''imageBase'', JStr ''repo/app''), (''imageTag'', JNum ''1e+21'')]"
  let ?e3 = "JObj [(''taskFamily'', JStr ''app''), (''containerName'', JStr ''web''),
                   (''imageBase'', JArr [JStr ''a'', JNull, JNum ''2'', JBool False,
                                         JArr [JBool True, JUndefined]]),
                   (''imageTag'', JObj [(''valueOf'', JStr ''v'')])]"
  obtain p1 where v1: "DeployParams_v1 ?e1 = Inr p1"
    by (simp add: DeployParams_v1_def required_errors_def requiredParams_v1_def Let_def
        string_plus_def js_or_def)
  obtain p2 where v2: "DeployParams_v2 ?e2 = Inr p2"
    by (simp add: DeployParams_v2_def required_errors_def requiredParams_v2_def Let_def
        string_plus_def js_or_def)
  obtain p3 where v3: "DeployParams_v2 ?e3 = Inr p3"
    by (simp add: DeployParams_v2_def required_errors_def requiredParams_v2_def Let_def
        string_plus_def js_or_def)
  have i1: "image_field p1 = JStr ''repo/app:latest''"
    using image_is_base_colon_tag[where event = ?e1 and p = p1, THEN conjunct1, THEN mp, OF v1]
    by auto
  have i2: "image_field p2 = JStr ''repo/app:1e+21''"
    using image_is_base_colon_tag[where event = ?e2 and q = p2, THEN conjunct2, THEN mp, OF v2]
    by auto
  have i3: "image_field p3 = JStr ''a,,2,false,true,:[object Object]''"
    using image_is_base_colon_tag[where event = ?e3 and q = p3, THEN conjunct2, THEN mp, OF v3]
    by auto
  from DeployParams_v1_Inr[OF v1] i1 have "p1 =
     \<lparr> cluster = JStr ''default'', service = JStr ''svc'', containerName = JStr ''web'',
       imageBase = JStr ''repo/app'', imageTag = JStr ''latest'',
       image_field = JStr ''repo/app:latest'', taskDefinition = JStr ''app:3'' \<rparr>"
    by (auto simp: js_or_def)
  moreover from DeployParams_v2_Inr[OF v2] i2 have "p2 =
     \<lparr> cluster = JStr ''default'', service = JUndefined, containerName = JStr ''web'',
       imageBase = JStr ''repo/app'', imageTag = JNum ''1e+21'',
       image_field = JStr ''repo/app:1e+21'', taskFamily = JStr ''app'' \<rparr>"
    by (auto simp: js_or_def)
  moreover from DeployParams_v2_Inr[OF v3] i3 have "p3 =
     \<lparr> cluster = JStr ''default'', service = JUndefined, containerName = JStr ''web'',
       imageBase = JArr [JStr ''a'', JNull, JNum ''2'', JBool False,
                         JArr [JBool True, JUndefined]],
       imageTag = JObj [(''valueOf'', JStr ''v'')],
       image_field = JStr ''a,,2,false,true,:[object Object]'', taskFamily = JStr ''app'' \<rparr>"
    by (auto simp: js_or_def)
  ultimately show ?thesis
    using v1 v2 v3 by simp
qed

text \<open>
  C3. For an event (any value but \<open>undefined\<close> and \<open>null\<close>, on which reading a
  field is a \<open>TypeError\<close>) with at least one required field absent or falsy, either
  constructor throws, and what it throws is the array holding, in the order of
  \<open>requiredParams\<close>, the message \<open>"<field> is required."\<close> of every required field
  that is absent or falsy. Nothing is constructed.
\<close>

theorem missing_fields_are_all_reported:
  assumes "\<not> nullish event"
  shows "(filter (\<lambda>f. \<not> truthy (lookup_prop event f)) requiredParams_v1 \<noteq> [] \<longrightarrow>
            DeployParams_v1 event =
              Inl (Thrown (JArr (map (\<lambda>f. JStr (f @ '' is required.''))
                (filter (\<lambda>f. \<not> truthy (lookup_prop event f)) requiredParams_v1))))) \<and>
         (filter (\<lambda>f. \<not> truthy (lookup_prop event f)) requiredParams_v2 \<noteq> [] \<longrightarrow>
            DeployParams_v2 event =
              Inl (Thrown (JArr (map (\<lambda>f. JStr (f @ '' is required.''))
                (filter (\<lambda>f. \<not> truthy (lookup_prop event f)) requiredParams_v2)))))"
  using assms
  by (simp add: DeployParams_v1_def DeployParams_v2_def required_errors_eq Let_def)

theorem missing_fields_are_all_reported_witness:
  "DeployParams_v1 (JObj [(''service'', JStr ''svc''), (''containerName'', JStr []),
                          (''imageBase'', JNull), (''imageTag'', JStr ''v2'')]) =
     Inl (Thrown (JArr [JStr ''taskDefinition is required.'', JStr ''containerName is required.'',
                        JStr ''imageBase is required.''])) \<and>
   DeployParams_v2 (JObj [(''service'', JStr ''svc''), (''containerName'', JStr []),
                          (''imageBase'', JNull), (''imageTag'', JStr ''v2'')]) =
     Inl (Thrown (JArr [JStr ''taskFamily is required.'', JStr ''containerName is required.'',
                        JStr ''imageBase is required.'']))"
  using missing_fields_are_all_reported
    [of "JObj [(''service'', JStr ''svc''), (''containerName'', JStr []),
               (''imageBase'', JNull), (''imageTag'', JStr ''v2'')]"]
  by (simp add: requiredParams_v1_def requiredParams_v2_def)

text \<open>
  C7 does not hold of every event with a cluster and no service. The required fields are
  checked first, and an event that also lacks one of them is refused with the
  missing-field messages alone. The image is computed next, and an event whose
  \<open>imageBase\<close> is an object with an own \<open>toString\<close> property ends the constructor with
  a \<open>TypeError\<close> before the cluster is looked at.
\<close>

theorem cluster_without_service_counterexample:
  "truthy (lookup_prop (JObj [(''cluster'', JStr ''prod''), (''containerName'', JStr ''web''),
                              (''imageBase'', JStr ''repo/app'')]) ''cluster'') \<and>
   lookup_prop (JObj [(''cluster'', JStr ''prod''), (''containerName'', JStr ''web''),
                      (''imageBase'', JStr ''repo/app'')]) ''service'' = JUndefined \<and>
   DeployParams_v2 (JObj [(''cluster'', JStr ''prod''), (''containerName'', JStr ''web''),
                          (''imageBase'', JStr ''repo/app'')]) =
     Inl (Thrown (JArr [JStr ''taskFamily is required.''])) \<and>
   DeployParams_v2 (JObj [(''cluster'', JStr ''prod''), (''containerName'', JStr ''web''),
                          (''imageBase'', JStr ''repo/app'')]) \<noteq>
     Inl (Thrown (JArr [JStr ''service is required when cluster is specified''])) \<and>
   DeployParams_v2 (JObj [(''taskFamily'', JStr ''app''), (''containerName'', JStr ''web''),
                          (''imageBase'', JObj [(''toString'', JStr ''x'')]),
                          (''cluster'', JStr ''prod'')]) = Inl TypeError"
  by (simp add: DeployParams_v2_def required_errors_def requiredParams_v2_def Let_def
      string_plus_def)

text \<open>
  C7, amended. In variant 2 an event whose three required fields are all truthy, whose
  \<open>imageBase\<close> and \<open>imageTag\<close> have a string (as every string, number and boolean and
  an absent \<open>imageTag\<close> have), whose cluster is truthy and whose service is absent or
  falsy is refused with the one-message array
  \<open>["service is required when cluster is specified"]\<close>.
\<close>

theorem cluster_requires_service:
  assumes "\<forall>f\<in>set requiredParams_v2. truthy (lookup_prop event f)"
    and "to_string (lookup_prop event ''imageBase'') = Inr b"
    and "to_string (lookup_prop event ''imageTag'') = Inr t"
    and "truthy (lookup_prop event ''cluster'')"
    and "\<not> truthy (lookup_prop event ''service'')"
  shows "DeployParams_v2 event =
           Inl (Thrown (JArr [JStr ''service is required when cluster is specified'']))"
proof -
  have "filter (\<lambda>f. \<not> truthy (lookup_prop event f)) requiredParams_v2 = []"
    using assms(1) by (simp add: filter_empty_conv)
  moreover have "\<not> nullish event"
    using assms(4) by (cases event) simp_all
  moreover obtain t' where
    "to_string (js_or (lookup_prop event ''imageTag'') (JStr ''latest'')) = Inr t'"
    using assms(3) by (cases "truthy (lookup_prop event ''imageTag'')") (simp_all add: js_or_def)
  ultimately show ?thesis
    using assms(2,4,5) unfolding DeployParams_v2_def Let_def image_concatenation
    by (simp add: required_errors_eq)
qed

theorem cluster_requires_service_witness:
  "DeployParams_v2 (JObj [(''taskFamily'', JStr ''app''), (''containerName'', JStr ''web''),
                          (''imageBase'', JStr ''repo/app''), (''cluster'', JStr ''prod'')]) =
     Inl (Thrown (JArr [JStr ''service is required when cluster is specified'']))"
  using cluster_requires_service
    [of "JObj [(''taskFamily'', JStr ''app''), (''containerName'', JStr ''web''),
               (''imageBase'', JStr ''repo/app''), (''cluster'', JStr ''prod'')]"]
  by (simp add: requiredParams_v2_def)
section \<open>The request of registerTaskDefinition\<close>

lemma registerTaskDefinition_params_containers:
  assumes t: "get_prop result ''taskDefinition'' = Inr (JObj task)"
    and c: "lookup_prop (JObj task) ''containerDefinitions'' = JArr (map JObj cs)"
  shows "registerTaskDefinition_params p result =
        Inr (JObj [(''family'', lookup_prop (JObj task) ''family''),
                   (''volumes'', lookup_prop (JObj task) ''volumes''),
                   (''taskRoleArn'', lookup_prop (JObj task) ''taskRoleArn''),
                   (''containerDefinitions'',
                      JArr (map JObj (map (\<lambda>c.
                        if strict_eq (lookup_prop (JObj c) ''name'') (containerName p)
                        then assign c ''image'' (image_field p) else c) cs)))])"
proof -
  have "array_map (containerTransformer (containerName p) (image_field p)) (JArr (map JObj cs)) =
          Inr (JArr (map JObj (map (\<lambda>c.
                        if strict_eq (lookup_prop (JObj c) ''name'') (containerName p)
                        then assign c ''image'' (image_field p) else c) cs)))"
    by (simp only: array_map.simps map_elements_containers and_then_Inr)
  then show ?thesis
    unfolding registerTaskDefinition_params_def
    by (simp only: t c and_then_Inr get_prop_JObj)
qed

lemma registerTaskDefinition_params_shape:
  assumes b: "registerTaskDefinition_params p result = Inr params"
  shows "\<exists>t containers.
         get_prop result ''taskDefinition'' = Inr t \<and>
         array_map (containerTransformer (containerName p) (image_field p))
           (lookup_prop t ''containerDefinitions'') = Inr containers \<and>
         params = JObj [(''family'', lookup_prop t ''family''),
                        (''volumes'', lookup_prop t ''volumes''),
                        (''taskRoleArn'', lookup_prop t ''taskRoleArn''),
                        (''containerDefinitions'', containers)]"
proof -
  from b obtain t where t: "get_prop result ''taskDefinition'' = Inr t"
    unfolding registerTaskDefinition_params_def and_then_def by (auto split: sum.splits)
  have nn: "\<not> nullish t"
  proof
    assume "nullish t"
    then have "get_prop t ''family'' = Inl TypeError"
      by (simp add: get_prop_def)
    with b show False
      unfolding registerTaskDefinition_params_def by (simp add: t)
  qed
  then have g: "\<And>k. get_prop t k = Inr (lookup_prop t k)"
    by (simp add: get_prop_def)
  from b obtain containers where
    c: "array_map (containerTransformer (containerName p) (image_field p))
           (lookup_prop t ''containerDefinitions'') = Inr containers"
    unfolding registerTaskDefinition_params_def
    by (auto simp: t g and_then_def split: sum.splits)
  from b have "params = JObj [(''family'', lookup_prop t ''family''),
                        (''volumes'', lookup_prop t ''volumes''),
                        (''taskRoleArn'', lookup_prop t ''taskRoleArn''),
                        (''containerDefinitions'', containers)]"
    unfolding registerTaskDefinition_params_def by (simp add: t g c)
  with t c show ?thesis
    by blast
qed

lemma settle_Inr [simp]: "settle (Inr d) = Inr d"
  by (simp add: settle_def)

lemma settle_Inl [simp]: "settle (Inl e) = Inl (Rejected e)"
  by (simp add: settle_def)

text \<open>
  C8. Given the response of \<open>describeTaskDefinition\<close>, whose task definition is an
  object with an array of container objects as \<open>containerDefinitions\<close>, \<open>updateTask\<close>
  sends one request, a \<open>registerTaskDefinition\<close> whose parameter object has the four
  properties \<open>family\<close>, \<open>volumes\<close>, \<open>taskRoleArn\<close> and \<open>containerDefinitions\<close>, in this
  order and no other: the first three as the task definition has them, the fourth the
  rewritten container list. Nothing else of the task definition is in the request. And
  whatever the response is, \<open>updateTask\<close> sends either nothing or one request of this
  shape.
\<close>

theorem register_request_has_exactly_four_fields:
  "(get_prop result ''taskDefinition'' = Inr (JObj task) \<longrightarrow>
    lookup_prop (JObj task) ''containerDefinitions'' = JArr (map JObj cs) \<longrightarrow>
    req = JObj [(''family'', lookup_prop (JObj task) ''family''),
                (''volumes'', lookup_prop (JObj task) ''volumes''),
                (''taskRoleArn'', lookup_prop (JObj task) ''taskRoleArn''),
                (''containerDefinitions'',
                   JArr (map JObj (map (\<lambda>c.
                     if strict_eq (lookup_prop (JObj c) ''name'') (containerName p)
                     then assign c ''image'' (image_field p) else c) cs)))] \<longrightarrow>
    ecs (RegisterTaskDefinition req) w = (r, w') \<longrightarrow>
      updateTask ecs p result (w, log) = (settle r, w', log @ [RegisterTaskDefinition req])) \<and>
   (snd (snd (updateTask ecs p result (w, log))) = log \<or>
    (\<exists>t containers.
       get_prop result ''taskDefinition'' = Inr t \<and>
       array_map (containerTransformer (containerName p) (image_field p))
         (lookup_prop t ''containerDefinitions'') = Inr containers \<and>
       snd (snd (updateTask ecs p result (w, log))) =
         log @ [RegisterTaskDefinition
                  (JObj [(''family'', lookup_prop t ''family''),
                         (''volumes'', lookup_prop t ''volumes''),
                         (''taskRoleArn'', lookup_prop t ''taskRoleArn''),
                         (''containerDefinitions'', containers)])]))"
proof (intro conjI impI)
  assume t: "get_prop result ''taskDefinition'' = Inr (JObj task)"
    and c: "lookup_prop (JObj task) ''containerDefinitions'' = JArr (map JObj cs)"
    and req: "req = JObj [(''family'', lookup_prop (JObj task) ''family''),
                (''volumes'', lookup_prop (JObj task) ''volumes''),
                (''taskRoleArn'', lookup_prop (JObj task) ''taskRoleArn''),
                (''containerDefinitions'',
                   JArr (map JObj (map (\<lambda>c.
                     if strict_eq (lookup_prop (JObj c) ''name'') (containerName p)
                     then assign c ''image'' (image_field p) else c) cs)))]"
    and e: "ecs (RegisterTaskDefinition req) w = (r, w')"
  have "registerTaskDefinition_params p result = Inr req"
    unfolding req by (rule registerTaskDefinition_params_containers[OF t c])
  then show "updateTask ecs p result (w, log) = (settle r, w', log @ [RegisterTaskDefinition req])"
    unfolding updateTask_def by (simp add: call_def e)
next
  show "snd (snd (updateTask ecs p result (w, log))) = log \<or>
    (\<exists>t containers.
       get_prop result ''taskDefinition'' = Inr t \<and>
       array_map (containerTransformer (containerName p) (image_field p))
         (lookup_prop t ''containerDefinitions'') = Inr containers \<and>
       snd (snd (updateTask ecs p result (w, log))) =
         log @ [RegisterTaskDefinition
                  (JObj [(''family'', lookup_prop t ''family''),
                         (''volumes'', lookup_prop t ''volumes''),
                         (''taskRoleArn'', lookup_prop t ''taskRoleArn''),
                         (''containerDefinitions'', containers)])])"
  proof (cases "registerTaskDefinition_params p result")
    case (Inl e)
    then have "snd (snd (updateTask ecs p result (w, log))) = log"
      unfolding updateTask_def by (simp add: rejected_def)
    then show ?thesis by (rule disjI1)
  next
    case (Inr params)
    from registerTaskDefinition_params_shape[OF Inr] obtain t containers where
      t: "get_prop result ''taskDefinition'' = Inr t" and
      c: "array_map (containerTransformer (containerName p) (image_field p))
           (lookup_prop t ''containerDefinitions'') = Inr containers" and
      s: "params = JObj [(''family'', lookup_prop t ''family''),
                        (''volumes'', lookup_prop t ''volumes''),
                        (''taskRoleArn'', lookup_prop t ''taskRoleArn''),
                        (''containerDefinitions'', containers)]"
      by blast
    have "snd (snd (updateTask ecs p result (w, log))) = log @ [RegisterTaskDefinition params]"
      unfolding updateTask_def by (simp add: Inr call_def split: prod.splits)
    with t c s show ?thesis by blast
  qed
qed

theorem register_request_has_exactly_four_fields_witness:
  "updateTask (sample_ecs [])
     \<lparr> cluster = JStr ''default'', service = JUndefined, containerName = JStr ''web'',
       imageBase = JStr ''repo/app'', imageTag = JStr ''v2'',
       image_field = JStr ''repo/app:v2'', taskFamily = JStr ''app'' \<rparr>
     (JObj [(''taskDefinition'', JObj sample_task)]) (0, []) =
   (Inr (JObj [(''taskDefinition'',
           JObj [(''taskDefinitionArn'', JStr ''arn:app:4''),
                 (''registered'',
                    JObj [(''family'', JStr ''app''),
                          (''volumes'', JArr []),
                          (''taskRoleArn'', JStr ''role''),
                          (''containerDefinitions'',
                             JArr [JObj [(''name'', JStr ''web''), (''image'', JStr ''repo/app:v2''),
                                         (''cpu'', JNum ''10'')],
                                   JObj sample_log])])])]),
    1,
    [RegisterTaskDefinition
       (JObj [(''family'', JStr ''app''),
              (''volumes'', JArr []),
              (''taskRoleArn'', JStr ''role''),
              (''containerDefinitions'',
                 JArr [JObj [(''name'', JStr ''web''), (''image'', JStr ''repo/app:v2''),
                             (''cpu'', JNum ''10'')],
                       JObj sample_log])])])"
proof -
  let ?p = "\<lparr> cluster = JStr ''default'', service = JUndefined, containerName = JStr ''web'',
               imageBase = JStr ''repo/app'', imageTag = JStr ''v2'',
               image_field = JStr ''repo/app:v2'', taskFamily = JStr ''app'' \<rparr>"
  let ?result = "JObj [(''taskDefinition'', JObj sample_task)]"
  let ?req = "JObj [(''family'', JStr ''app''),
              (''volumes'', JArr []),
              (''taskRoleArn'', JStr ''role''),
              (''containerDefinitions'',
                 JArr [JObj [(''name'', JStr ''web''), (''image'', JStr ''repo/app:v2''),
                             (''cpu'', JNum ''10'')],
                       JObj sample_log])]"
  let ?r = "JObj [(''taskDefinition'',
              JObj [(''taskDefinitionArn'', JStr ''arn:app:4''), (''registered'', ?req)])]"
  have t: "get_prop ?result ''taskDefinition'' = Inr (JObj sample_task)"
    by simp
  have c: "lookup_prop (JObj sample_task) ''containerDefinitions'' =
             JArr (map JObj [sample_web, sample_log])"
    by (simp add: sample_task_def)
  have req: "?req = JObj [(''family'', lookup_prop (JObj sample_task) ''family''),
                (''volumes'', lookup_prop (JObj sample_task) ''volumes''),
                (''taskRoleArn'', lookup_prop (JObj sample_task) ''taskRoleArn''),
                (''containerDefinitions'',
                   JArr (map JObj (map (\<lambda>c.
                     if strict_eq (lookup_prop (JObj c) ''name'') (containerName ?p)
                     then assign c ''image'' (image_field ?p) else c) [sample_web, sample_log])))]"
    by (simp add: sample_task_def sample_web_def sample_log_def)
  have e: "sample_ecs [] (RegisterTaskDefinition ?req) 0 = (Inr ?r, 1)"
    by (simp add: sample_ecs_def)
  from register_request_has_exactly_four_fields
    [where ecs = "sample_ecs []" and log = "[]", THEN conjunct1, rule_format, OF t c req e]
  show ?thesis by simp
qed
section \<open>Running the promise chains\<close>

text \<open>
  C5 does not hold of every valid event: the chain stops at the first call that fails and
  at the first response that lacks what the next step reads. Here \<open>describeServices\<close>
  answers with no service, and the one request sent is the first.
\<close>

theorem variant1_stops_early_counterexample:
  "DeployParams_v1 (JObj [(''service'', JStr ''svc''), (''taskDefinition'', JStr ''app:3''),
                          (''containerName'', JStr ''web''), (''imageBase'', JStr ''repo/app'')]) =
     Inr \<lparr> cluster = JStr ''default'', service = JStr ''svc'', containerName = JStr ''web'',
           imageBase = JStr ''repo/app'', imageTag = JStr ''latest'',
           image_field = JStr ''repo/app:latest'', taskDefinition = JStr ''app:3'' \<rparr> \<and>
   snd (snd (handler_v1 (sample_ecs [])
     (JObj [(''service'', JStr ''svc''), (''taskDefinition'', JStr ''app:3''),
            (''containerName'', JStr ''web''), (''imageBase'', JStr ''repo/app'')]) 0)) =
     [DescribeServices (JObj [(''cluster'', JStr ''default''), (''services'', JArr [JStr ''svc''])])]"
proof -
  let ?event = "JObj [(''service'', JStr ''svc''), (''taskDefinition'', JStr ''app:3''),
                      (''containerName'', JStr ''web''), (''imageBase'', JStr ''repo/app'')]"
  have valid: "DeployParams_v1 ?event =
     Inr \<lparr> cluster = JStr ''default'', service = JStr ''svc'', containerName = JStr ''web'',
           imageBase = JStr ''repo/app'', imageTag = JStr ''latest'',
           image_field = JStr ''repo/app:latest'', taskDefinition = JStr ''app:3'' \<rparr>"
    by (simp add: DeployParams_v1_def required_errors_def requiredParams_v1_def Let_def
        js_or_def string_plus_def)
  have "snd (snd (handler_v1 (sample_ecs []) ?event 0)) =
     [DescribeServices (JObj [(''cluster'', JStr ''default''), (''services'', JArr [JStr ''svc''])])]"
    unfolding handler_v1_def promised_def
    by (simp add: valid then_promise_def describeService_def call_def sample_ecs_def
        describeTask_v1_def describeTask_v1_params_def rejected_def)
  with valid show ?thesis by (rule conjI)
qed

text \<open>
  C5, amended. In variant 1, for a valid event and an ECS client whose calls succeed with
  responses that carry what the next step reads (a first service, a task definition whose
  \<open>containerDefinitions\<close> is an array of container objects, a registered task
  definition), the handler sends exactly four requests, in this order:
  \<open>describeServices\<close> for the event's cluster and service, \<open>describeTaskDefinition\<close>
  for the \<open>taskDefinition\<close> of the first service of that response,
  \<open>registerTaskDefinition\<close> with the family, volumes and role of the described task
  and its containers rewritten for the event's container name and image, and
  \<open>updateService\<close> for the same cluster and service with the \<open>taskDefinitionArn\<close> of
  the registered task. The callback receives the outcome of the last call.
\<close>

theorem variant1_four_calls_in_order:
  assumes valid: "DeployParams_v1 event = Inr p"
    and ds: "ecs (DescribeServices (JObj [(''cluster'', cluster p),
                                         (''services'', JArr [service p])])) w = (Inr r1, w1)"
    and services: "get_prop r1 ''services'' = Inr (JArr (first # rest))"
    and td: "get_prop first ''taskDefinition'' = Inr td"
    and dt: "ecs (DescribeTaskDefinition (JObj [(''taskDefinition'', td)])) w1 = (Inr r2, w2)"
    and described: "get_prop r2 ''taskDefinition'' = Inr (JObj task)"
    and containers: "lookup_prop (JObj task) ''containerDefinitions'' = JArr (map JObj cs)"
    and req: "req = JObj [(''family'', lookup_prop (JObj task) ''family''),
                (''volumes'', lookup_prop (JObj task) ''volumes''),
                (''taskRoleArn'', lookup_prop (JObj task) ''taskRoleArn''),
                (''containerDefinitions'',
                   JArr (map JObj (map (\<lambda>c.
                     if strict_eq (lookup_prop (JObj c) ''name'') (containerName p)
                     then assign c ''image'' (image_field p) else c) cs)))]"
    and rt: "ecs (RegisterTaskDefinition req) w2 = (Inr r3, w3)"
    and registered: "get_prop r3 ''taskDefinition'' = Inr new_task"
    and arn: "get_prop new_task ''taskDefinitionArn'' = Inr arn"
    and us: "ecs (UpdateService (JObj [(''cluster'', cluster p), (''service'', service p),
                                      (''taskDefinition'', arn)])) w3 = (r4, w4)"
  shows "handler_v1 ecs event w =
           (settle r4, w4,
            [DescribeServices (JObj [(''cluster'', cluster p), (''services'', JArr [service p])]),
             DescribeTaskDefinition (JObj [(''taskDefinition'', td)]),
             RegisterTaskDefinition req,
             UpdateService (JObj [(''cluster'', cluster p), (''service'', service p),
                                  (''taskDefinition'', arn)])])"
proof -
  let ?DS = "DescribeServices (JObj [(''cluster'', cluster p), (''services'', JArr [service p])])"
  let ?DT = "DescribeTaskDefinition (JObj [(''taskDefinition'', td)])"
  let ?RT = "RegisterTaskDefinition req"
  let ?US = "UpdateService (JObj [(''cluster'', cluster p), (''service'', service p),
                                  (''taskDefinition'', arn)])"
  have s1: "describeService ecs p (w, []) = (Inr r1, w1, [?DS])"
    unfolding describeService_def by (simp add: call_def ds)
  have "describeTask_v1_params r1 = Inr (JObj [(''taskDefinition'', td)])"
    unfolding describeTask_v1_params_def by (simp add: services td)
  then have s2: "describeTask_v1 ecs p r1 (w1, [?DS]) = (Inr r2, w2, [?DS, ?DT])"
    unfolding describeTask_v1_def by (simp add: call_def dt)
  have params: "registerTaskDefinition_params p r2 = Inr req"
    unfolding req by (rule registerTaskDefinition_params_containers[OF described containers])
  have s3: "updateTask ecs p r2 (w2, [?DS, ?DT]) = (Inr r3, w3, [?DS, ?DT, ?RT])"
    unfolding updateTask_def by (simp add: params call_def rt)
  have "updateService_params p r3 =
          Inr (JObj [(''cluster'', cluster p), (''service'', service p), (''taskDefinition'', arn)])"
    unfolding updateService_params_def by (simp add: registered arn)
  then have s4: "updateService ecs p r3 (w3, [?DS, ?DT, ?RT]) = (settle r4, w4, [?DS, ?DT, ?RT, ?US])"
    unfolding updateService_def by (simp add: call_def us)
  have "then_promise (describeService ecs p) (describeTask_v1 ecs p) (w, []) =
          (Inr r2, w2, [?DS, ?DT])"
    by (simp add: then_promise_def s1 s2)
  then have "then_promise (then_promise (describeService ecs p) (describeTask_v1 ecs p))
          (updateTask ecs p) (w, []) = (Inr r3, w3, [?DS, ?DT, ?RT])"
    by (simp add: then_promise_def s3)
  then have "then_promise (then_promise (then_promise (describeService ecs p)
          (describeTask_v1 ecs p)) (updateTask ecs p)) (updateService ecs p) (w, []) =
          (settle r4, w4, [?DS, ?DT, ?RT, ?US])"
    by (simp add: then_promise_def s4)
  then show ?thesis
    unfolding handler_v1_def promised_def by (simp add: valid)
qed

theorem variant1_four_calls_in_order_witness:
  "handler_v1 (sample_ecs [sample_service])
     (JObj [(''service'', JStr ''svc''), (''taskDefinition'', JStr ''app:3''),
            (''containerName'', JStr ''web''), (''imageBase'', JStr ''repo/app'')]) 0 =
   (Inr (JObj [(''service'',
           JObj [(''cluster'', JStr ''default''), (''service'', JStr ''svc''),
                 (''taskDefinition'', JStr ''arn:app:4'')])]),
    4,
    [DescribeServices (JObj [(''cluster'', JStr ''default''), (''services'', JArr [JStr ''svc''])]),
     DescribeTaskDefinition (JObj [(''taskDefinition'', JStr ''arn:app:3'')]),
     RegisterTaskDefinition
       (JObj [(''family'', JStr ''app''),
              (''volumes'', JArr []),
              (''taskRoleArn'', JStr ''role''),
              (''containerDefinitions'',
                 JArr [JObj [(''name'', JStr ''web''), (''image'', JStr ''repo/app:latest''),
                             (''cpu'', JNum ''10'')],
                       JObj sample_log])]),
     UpdateService (JObj [(''cluster'', JStr ''default''), (''service'', JStr ''svc''),
                          (''taskDefinition'', JStr ''arn:app:4'')])])"
proof -
  let ?event = "JObj [(''service'', JStr ''svc''), (''taskDefinition'', JStr ''app:3''),
                      (''containerName'', JStr ''web''), (''imageBase'', JStr ''repo/app'')]"
  let ?p = "\<lparr> cluster = JStr ''default'', service = JStr ''svc'', containerName = JStr ''web'',
               imageBase = JStr ''repo/app'', imageTag = JStr ''latest'',
               image_field = JStr ''repo/app:latest'', taskDefinition = JStr ''app:3'' \<rparr>"
  let ?req = "JObj [(''family'', JStr ''app''),
              (''volumes'', JArr []),
              (''taskRoleArn'', JStr ''role''),
              (''containerDefinitions'',
                 JArr [JObj [(''name'', JStr ''web''), (''image'', JStr ''repo/app:latest''),
                             (''cpu'', JNum ''10'')],
                       JObj sample_log])]"
  let ?r1 = "JObj [(''services'', JArr [sample_service]), (''failures'', JArr [])]"
  let ?r2 = "JObj [(''taskDefinition'', JObj sample_task)]"
  let ?task = "JObj [(''taskDefinitionArn'', JStr ''arn:app:4''), (''registered'', ?req)]"
  let ?r3 = "JObj [(''taskDefinition'', ?task)]"
  let ?us = "JObj [(''cluster'', JStr ''default''), (''service'', JStr ''svc''),
                   (''taskDefinition'', JStr ''arn:app:4'')]"
  have valid: "DeployParams_v1 ?event = Inr ?p"
    by (simp add: DeployParams_v1_def required_errors_def requiredParams_v1_def Let_def
        js_or_def string_plus_def)
  have ds: "sample_ecs [sample_service]
      (DescribeServices (JObj [(''cluster'', cluster ?p), (''services'', JArr [service ?p])])) 0 =
      (Inr ?r1, 1)"
    by (simp add: sample_ecs_def)
  have services: "get_prop ?r1 ''services'' = Inr (JArr (sample_service # []))"
    by simp
  have td: "get_prop sample_service ''taskDefinition'' = Inr (JStr ''arn:app:3'')"
    by (simp add: sample_service_def)
  have dt: "sample_ecs [sample_service]
      (DescribeTaskDefinition (JObj [(''taskDefinition'', JStr ''arn:app:3'')])) 1 = (Inr ?r2, 2)"
    by (simp add: sample_ecs_def)
  have described: "get_prop ?r2 ''taskDefinition'' = Inr (JObj sample_task)"
    by simp
  have containers: "lookup_prop (JObj sample_task) ''containerDefinitions'' =
      JArr (map JObj [sample_web, sample_log])"
    by (simp add: sample_task_def)
  have req: "?req = JObj [(''family'', lookup_prop (JObj sample_task) ''family''),
                (''volumes'', lookup_prop (JObj sample_task) ''volumes''),
                (''taskRoleArn'', lookup_prop (JObj sample_task) ''taskRoleArn''),
                (''containerDefinitions'',
                   JArr (map JObj (map (\<lambda>c.
                     if strict_eq (lookup_prop (JObj c) ''name'') (containerName ?p)
                     then assign c ''image'' (image_field ?p) else c) [sample_web, sample_log])))]"
    by (simp add: sample_task_def sample_web_def sample_log_def)
  have rt: "sample_ecs [sample_service] (RegisterTaskDefinition ?req) 2 = (Inr ?r3, 3)"
    by (simp add: sample_ecs_def)
  have registered: "get_prop ?r3 ''taskDefinition'' = Inr ?task"
    by simp
  have arn: "get_prop ?task ''taskDefinitionArn'' = Inr (JStr ''arn:app:4'')"
    by simp
  have us: "sample_ecs [sample_service]
      (UpdateService (JObj [(''cluster'', cluster ?p), (''service'', service ?p),
                            (''taskDefinition'', JStr ''arn:app:4'')])) 3 =
      (Inr (JObj [(''service'', ?us)]), 4)"
    by (simp add: sample_ecs_def)
  from variant1_four_calls_in_order
    [where ecs = "sample_ecs [sample_service]",
     OF valid ds services td dt described containers req rt registered arn us]
  show ?thesis by simp
qed
text \<open>
  C9. In variant 1, when \<open>describeServices\<close> answers with an empty \<open>services\<close> list,
  reading \<open>result.services[0].taskDefinition\<close> is a \<open>TypeError\<close> inside the chain:
  the callback receives that error, and the one request sent is the
  \<open>describeServices\<close> itself.
\<close>

theorem variant1_aborts_when_service_is_not_returned:
  assumes valid: "DeployParams_v1 event = Inr p"
    and ds: "ecs (DescribeServices (JObj [(''cluster'', cluster p),
                                         (''services'', JArr [service p])])) w = (Inr r1, w1)"
    and services: "get_prop r1 ''services'' = Inr (JArr [])"
  shows "handler_v1 ecs event w =
           (Inl TypeError, w1,
            [DescribeServices (JObj [(''cluster'', cluster p), (''services'', JArr [service p])])])"
proof -
  let ?DS = "DescribeServices (JObj [(''cluster'', cluster p), (''services'', JArr [service p])])"
  have s1: "describeService ecs p (w, []) = (Inr r1, w1, [?DS])"
    unfolding describeService_def by (simp add: call_def ds)
  have "describeTask_v1_params r1 = Inl TypeError"
    unfolding describeTask_v1_params_def by (simp add: services)
  then have s2: "describeTask_v1 ecs p r1 (w1, [?DS]) = (Inl TypeError, w1, [?DS])"
    unfolding describeTask_v1_def by (simp add: rejected_def)
  have "then_promise (describeService ecs p) (describeTask_v1 ecs p) (w, []) =
          (Inl TypeError, w1, [?DS])"
    by (simp add: then_promise_def s1 s2)
  then have "then_promise (then_promise (then_promise (describeService ecs p)
          (describeTask_v1 ecs p)) (updateTask ecs p)) (updateService ecs p) (w, []) =
          (Inl TypeError, w1, [?DS])"
    by (simp add: then_promise_def)
  then show ?thesis
    unfolding handler_v1_def promised_def by (simp add: valid)
qed

theorem variant1_aborts_when_service_is_not_returned_witness:
  "handler_v1 (sample_ecs [])
     (JObj [(''service'', JStr ''gone''), (''taskDefinition'', JStr ''app:3''),
            (''containerName'', JStr ''web''), (''imageBase'', JStr ''repo/app'')]) 0 =
   (Inl TypeError, 1,
    [DescribeServices (JObj [(''cluster'', JStr ''default''), (''services'', JArr [JStr ''gone''])])])"
proof -
  let ?event = "JObj [(''service'', JStr ''gone''), (''taskDefinition'', JStr ''app:3''),
                      (''containerName'', JStr ''web''), (''imageBase'', JStr ''repo/app'')]"
  let ?p = "\<lparr> cluster = JStr ''default'', service = JStr ''gone'', containerName = JStr ''web'',
               imageBase = JStr ''repo/app'', imageTag = JStr ''latest'',
               image_field = JStr ''repo/app:latest'', taskDefinition = JStr ''app:3'' \<rparr>"
  let ?r1 = "JObj [(''services'', JArr []), (''failures'', JArr [])]"
  have valid: "DeployParams_v1 ?event = Inr ?p"
    by (simp add: DeployParams_v1_def required_errors_def requiredParams_v1_def Let_def
        js_or_def string_plus_def)
  have ds: "sample_ecs []
      (DescribeServices (JObj [(''cluster'', cluster ?p), (''services'', JArr [service ?p])])) 0 =
      (Inr ?r1, 1)"
    by (simp add: sample_ecs_def)
  have services: "get_prop ?r1 ''services'' = Inr (JArr [])"
    by simp
  from variant1_aborts_when_service_is_not_returned
    [where ecs = "sample_ecs []", OF valid ds services]
  show ?thesis by simp
qed

lemma describeService_ignores_taskDefinition:
  "describeService ecs (p\<lparr>taskDefinition := x\<rparr>) = describeService ecs p"
  by (simp add: describeService_def)

lemma describeTask_v1_ignores_taskDefinition:
  "describeTask_v1 ecs (p\<lparr>taskDefinition := x\<rparr>) = describeTask_v1 ecs p"
  by (rule ext) (simp add: describeTask_v1_def)

lemma updateTask_ignores_taskDefinition:
  "updateTask ecs (p\<lparr>taskDefinition := x\<rparr>) = updateTask ecs p"
  by (rule ext) (simp add: updateTask_def registerTaskDefinition_params_def)

lemma updateService_ignores_taskDefinition:
  "updateService ecs (p\<lparr>taskDefinition := x\<rparr>) = updateService ecs p"
  by (rule ext) (simp add: updateService_def updateService_params_def)

text \<open>
  C10. In variant 1 an event passes validation only with a truthy \<open>taskDefinition\<close>,
  and that value goes nowhere: two valid events that agree on every other field make
  the handler do the same thing against the same ECS client from the same world, that
  is, deliver the same result to the callback after sending the same requests.
\<close>

theorem variant1_taskDefinition_value_is_unused:
  assumes valid: "DeployParams_v1 event = Inr p"
    and valid': "DeployParams_v1 event' = Inr p'"
    and same: "\<forall>k. k \<noteq> ''taskDefinition'' \<longrightarrow> lookup_prop event k = lookup_prop event' k"
  shows "truthy (lookup_prop event ''taskDefinition'') \<and>
         truthy (lookup_prop event' ''taskDefinition'') \<and>
         handler_v1 ecs event w = handler_v1 ecs event' w"
proof -
  have req: "\<And>e q. DeployParams_v1 e = Inr q \<Longrightarrow> truthy (lookup_prop e ''taskDefinition'')"
    by (auto simp: DeployParams_v1_def required_errors_eq requiredParams_v1_def Let_def
        split: if_splits)
  from DeployParams_v1_Inr[OF valid] obtain b t where
    b: "to_string (lookup_prop event ''imageBase'') = Inr b" and
    t: "to_string (js_or (lookup_prop event ''imageTag'') (JStr ''latest'')) = Inr t" and
    r: "p = \<lparr> cluster = js_or (lookup_prop event ''cluster'') (JStr ''default''),
               service = lookup_prop event ''service'',
               containerName = lookup_prop event ''containerName'',
               imageBase = lookup_prop event ''imageBase'',
               imageTag = js_or (lookup_prop event ''imageTag'') (JStr ''latest''),
               image_field = JStr (b @ '':'' @ t),
               taskDefinition = lookup_prop event ''taskDefinition'' \<rparr>"
    by blast
  from DeployParams_v1_Inr[OF valid'] obtain b' t' where
    b': "to_string (lookup_prop event' ''imageBase'') = Inr b'" and
    t': "to_string (js_or (lookup_prop event' ''imageTag'') (JStr ''latest'')) = Inr t'" and
    r': "p' = \<lparr> cluster = js_or (lookup_prop event' ''cluster'') (JStr ''default''),
               service = lookup_prop event' ''service'',
               containerName = lookup_prop event' ''containerName'',
               imageBase = lookup_prop event' ''imageBase'',
               imageTag = js_or (lookup_prop event' ''imageTag'') (JStr ''latest''),
               image_field = JStr (b' @ '':'' @ t'),
               taskDefinition = lookup_prop event' ''taskDefinition'' \<rparr>"
    by blast
  have fields: "lookup_prop event ''cluster'' = lookup_prop event' ''cluster''"
    "lookup_prop event ''service'' = lookup_prop event' ''service''"
    "lookup_prop event ''containerName'' = lookup_prop event' ''containerName''"
    "lookup_prop event ''imageBase'' = lookup_prop event' ''imageBase''"
    "lookup_prop event ''imageTag'' = lookup_prop event' ''imageTag''"
    using same by simp_all
  have "b' = b" and "t' = t"
    using b t b' t' by (simp_all add: fields)
  then have "p' = p\<lparr>taskDefinition := lookup_prop event' ''taskDefinition''\<rparr>"
    unfolding r r' by (simp add: fields)
  then have "handler_v1 ecs event' w = handler_v1 ecs event w"
    unfolding handler_v1_def
    by (simp add: valid valid' describeService_ignores_taskDefinition
        describeTask_v1_ignores_taskDefinition updateTask_ignores_taskDefinition
        updateService_ignores_taskDefinition)
  with req[OF valid] req[OF valid'] show ?thesis by simp
qed

theorem variant1_taskDefinition_value_is_unused_witness:
  "handler_v1 (sample_ecs [sample_service])
     (JObj [(''service'', JStr ''svc''), (''taskDefinition'', JStr ''app:3''),
            (''containerName'', JStr ''web''), (''imageBase'', JStr ''repo/app'')]) 0 =
   handler_v1 (sample_ecs [sample_service])
     (JObj [(''service'', JStr ''svc''), (''taskDefinition'', JStr ''other:9''),
            (''containerName'', JStr ''web''), (''imageBase'', JStr ''repo/app'')]) 0"
proof -
  let ?e = "JObj [(''service'', JStr ''svc''), (''taskDefinition'', JStr ''app:3''),
                  (''containerName'', JStr ''web''), (''imageBase'', JStr ''repo/app'')]"
  let ?e' = "JObj [(''service'', JStr ''svc''), (''taskDefinition'', JStr ''other:9''),
                   (''containerName'', JStr ''web''), (''imageBase'', JStr ''repo/app'')]"
  obtain p where valid: "DeployParams_v1 ?e = Inr p"
    by (simp add: DeployParams_v1_def required_errors_def requiredParams_v1_def Let_def
        string_plus_def js_or_def)
  obtain p' where valid': "DeployParams_v1 ?e' = Inr p'"
    by (simp add: DeployParams_v1_def required_errors_def requiredParams_v1_def Let_def
        string_plus_def js_or_def)
  have same: "\<forall>k. k \<noteq> ''taskDefinition'' \<longrightarrow> lookup_prop ?e k = lookup_prop ?e' k"
    by simp
  from variant1_taskDefinition_value_is_unused
    [where ecs = "sample_ecs [sample_service]" and w = 0, OF valid valid' same]
  show ?thesis by blast
qed
section \<open>Variant 2: the optional service update\<close>

lemma taskUpdate_never_updates_service:
  "UpdateService u \<notin> set (snd (snd
     (then_promise (describeTask_v2 ecs p) (updateTask ecs p) (w, []))))"
  by (auto simp: then_promise_def describeTask_v2_def updateTask_def call_def rejected_def
      split: sum.splits prod.splits)

text \<open>
  C4 does not hold of every valid event that has a \<open>service\<close> field: \<open>buildPromise\<close>
  tests \<open>!(p.service)\<close>, so a service that is present but falsy (here the empty
  string) is treated as no service. With every call answered, only
  \<open>describeTaskDefinition\<close> and \<open>registerTaskDefinition\<close> are sent.
\<close>

theorem falsy_service_counterexample:
  "map_of [(''taskFamily'', JStr ''app''), (''containerName'', JStr ''web''),
           (''imageBase'', JStr ''repo/app''), (''imageTag'', JStr ''v2''),
           (''service'', JStr [])] ''service'' = Some (JStr []) \<and>
   DeployParams_v2 (JObj [(''taskFamily'', JStr ''app''), (''containerName'', JStr ''web''),
                          (''imageBase'', JStr ''repo/app''), (''imageTag'', JStr ''v2''),
                          (''service'', JStr [])]) =
     Inr \<lparr> cluster = JStr ''default'', service = JStr [], containerName = JStr ''web'',
           imageBase = JStr ''repo/app'', imageTag = JStr ''v2'',
           image_field = JStr ''repo/app:v2'', taskFamily = JStr ''app'' \<rparr> \<and>
   snd (snd (handler_v2 (sample_ecs [sample_service])
     (JObj [(''taskFamily'', JStr ''app''), (''containerName'', JStr ''web''),
            (''imageBase'', JStr ''repo/app''), (''imageTag'', JStr ''v2''),
            (''service'', JStr [])]) 0)) =
     [DescribeTaskDefinition (JObj [(''taskDefinition'', JStr ''app'')]),
      RegisterTaskDefinition
        (JObj [(''family'', JStr ''app''),
               (''volumes'', JArr []),
               (''taskRoleArn'', JStr ''role''),
               (''containerDefinitions'',
                  JArr [JObj [(''name'', JStr ''web''), (''image'', JStr ''repo/app:v2''),
                              (''cpu'', JNum ''10'')],
                        JObj sample_log])])]"
proof -
  let ?event = "JObj [(''taskFamily'', JStr ''app''), (''containerName'', JStr ''web''),
                      (''imageBase'', JStr ''repo/app''), (''imageTag'', JStr ''v2''),
                      (''service'', JStr [])]"
  let ?p = "\<lparr> cluster = JStr ''default'', service = JStr [], containerName = JStr ''web'',
               imageBase = JStr ''repo/app'', imageTag = JStr ''v2'',
               image_field = JStr ''repo/app:v2'', taskFamily = JStr ''app'' \<rparr>"
  have valid: "DeployParams_v2 ?event = Inr ?p"
    by (simp add: DeployParams_v2_def required_errors_def requiredParams_v2_def Let_def
        js_or_def string_plus_def)
  have params: "registerTaskDefinition_params ?p (JObj [(''taskDefinition'', JObj sample_task)]) =
      Inr (JObj [(''family'', JStr ''app''),
               (''volumes'', JArr []),
               (''taskRoleArn'', JStr ''role''),
               (''containerDefinitions'',
                  JArr [JObj [(''name'', JStr ''web''), (''image'', JStr ''repo/app:v2''),
                              (''cpu'', JNum ''10'')],
                        JObj sample_log])])"
    by (simp add: registerTaskDefinition_params_def sample_task_def sample_web_def
        sample_log_def containerTransformer_def)
  have "snd (snd (handler_v2 (sample_ecs [sample_service]) ?event 0)) =
     [DescribeTaskDefinition (JObj [(''taskDefinition'', JStr ''app'')]),
      RegisterTaskDefinition
        (JObj [(''family'', JStr ''app''),
               (''volumes'', JArr []),
               (''taskRoleArn'', JStr ''role''),
               (''containerDefinitions'',
                  JArr [JObj [(''name'', JStr ''web''), (''image'', JStr ''repo/app:v2''),
                              (''cpu'', JNum ''10'')],
                        JObj sample_log])])]"
    unfolding handler_v2_def promised_def buildPromise_def
    by (simp add: valid then_promise_def describeTask_v2_def updateTask_def call_def
        sample_ecs_def params)
  with valid show ?thesis by simp
qed

text \<open>
  C4, amended. In variant 2, for a valid event whose \<open>service\<close> is absent or falsy the
  handler never sends \<open>updateService\<close>, whatever the ECS client answers; and when
  \<open>describeTaskDefinition\<close> succeeds with a task definition whose
  \<open>containerDefinitions\<close> is an array of container objects and
  \<open>registerTaskDefinition\<close> succeeds, it sends exactly these two requests, in this
  order, the second with the family, volumes and role of the described task and its
  containers rewritten for the event's container name and image, and hands the
  registered task to the callback. For a valid event whose \<open>service\<close> is truthy, and
  the same two calls succeeding, it then sends \<open>updateService\<close> for the event's cluster
  and service with the \<open>taskDefinitionArn\<close> of the registered task, and hands the
  outcome of that call to the callback.
\<close>

theorem variant2_updates_service_only_when_given:
  assumes valid: "DeployParams_v2 event = Inr p"
    and dt: "ecs (DescribeTaskDefinition (JObj [(''taskDefinition'', taskFamily p)])) w =
               (Inr r1, w1)"
    and described: "get_prop r1 ''taskDefinition'' = Inr (JObj task)"
    and containers: "lookup_prop (JObj task) ''containerDefinitions'' = JArr (map JObj cs)"
    and req: "req = JObj [(''family'', lookup_prop (JObj task) ''family''),
                (''volumes'', lookup_prop (JObj task) ''volumes''),
                (''taskRoleArn'', lookup_prop (JObj task) ''taskRoleArn''),
                (''containerDefinitions'',
                   JArr (map JObj (map (\<lambda>c.
                     if strict_eq (lookup_prop (JObj c) ''name'') (containerName p)
                     then assign c ''image'' (image_field p) else c) cs)))]"
    and rt: "ecs (RegisterTaskDefinition req) w1 = (Inr r2, w2)"
  shows "(\<not> truthy (lookup_prop event ''service'') \<longrightarrow>
            handler_v2 ecs event w =
              (Inr r2, w2,
               [DescribeTaskDefinition (JObj [(''taskDefinition'', taskFamily p)]),
                RegisterTaskDefinition req]) \<and>
            (\<forall>ecs' w' u. UpdateService u \<notin> set (snd (snd (handler_v2 ecs' event (w' :: 'w)))))) \<and>
         (truthy (lookup_prop event ''service'') \<longrightarrow>
            (\<forall>new_task arn r3 w3.
               get_prop r2 ''taskDefinition'' = Inr new_task \<longrightarrow>
               get_prop new_task ''taskDefinitionArn'' = Inr arn \<longrightarrow>
               ecs (UpdateService (JObj [(''cluster'', cluster p), (''service'', service p),
                                         (''taskDefinition'', arn)])) w2 = (r3, w3) \<longrightarrow>
               handler_v2 ecs event w =
                 (settle r3, w3,
                  [DescribeTaskDefinition (JObj [(''taskDefinition'', taskFamily p)]),
                   RegisterTaskDefinition req,
                   UpdateService (JObj [(''cluster'', cluster p), (''service'', service p),
                                        (''taskDefinition'', arn)])])))"
proof -
  let ?DT = "DescribeTaskDefinition (JObj [(''taskDefinition'', taskFamily p)])"
  let ?RT = "RegisterTaskDefinition req"
  have svc: "service p = lookup_prop event ''service''"
    using DeployParams_v2_Inr[OF valid] by auto
  have params: "registerTaskDefinition_params p r1 = Inr req"
    unfolding req by (rule registerTaskDefinition_params_containers[OF described containers])
  have s1: "describeTask_v2 ecs p (w, []) = (Inr r1, w1, [?DT])"
    unfolding describeTask_v2_def by (simp add: call_def dt)
  have s2: "updateTask ecs p r1 (w1, [?DT]) = (Inr r2, w2, [?DT, ?RT])"
    unfolding updateTask_def by (simp add: params call_def rt)
  have taskUpdate: "then_promise (describeTask_v2 ecs p) (updateTask ecs p) (w, []) =
      (Inr r2, w2, [?DT, ?RT])"
    by (simp add: then_promise_def s1 s2)
  show ?thesis
  proof (intro conjI impI allI)
    assume no: "\<not> truthy (lookup_prop event ''service'')"
    show "handler_v2 ecs event w = (Inr r2, w2, [?DT, ?RT])"
      unfolding handler_v2_def promised_def buildPromise_def
      by (simp add: valid svc no taskUpdate)
    fix ecs' :: "'w ecs" and w' :: 'w and u
    have "handler_v2 ecs' event w' =
            then_promise (describeTask_v2 ecs' p) (updateTask ecs' p) (w', [])"
      unfolding handler_v2_def promised_def buildPromise_def
      by (simp add: valid svc no)
    then show "UpdateService u \<notin> set (snd (snd (handler_v2 ecs' event w')))"
      by (simp only: taskUpdate_never_updates_service not_False_eq_True)
  next
    fix new_task arn r3 w3
    assume yes: "truthy (lookup_prop event ''service'')"
      and registered: "get_prop r2 ''taskDefinition'' = Inr new_task"
      and arn: "get_prop new_task ''taskDefinitionArn'' = Inr arn"
      and us: "ecs (UpdateService (JObj [(''cluster'', cluster p), (''service'', service p),
                                         (''taskDefinition'', arn)])) w2 = (r3, w3)"
    let ?US = "UpdateService (JObj [(''cluster'', cluster p), (''service'', service p),
                                    (''taskDefinition'', arn)])"
    have "updateService_params p r2 =
            Inr (JObj [(''cluster'', cluster p), (''service'', service p),
                       (''taskDefinition'', arn)])"
      unfolding updateService_params_def by (simp add: registered arn)
    then have s3: "updateService ecs p r2 (w2, [?DT, ?RT]) = (settle r3, w3, [?DT, ?RT, ?US])"
      unfolding updateService_def by (simp add: call_def us)
    have "then_promise (then_promise (describeTask_v2 ecs p) (updateTask ecs p))
            (updateService ecs p) (w, []) = (settle r3, w3, [?DT, ?RT, ?US])"
      by (simp add: then_promise_def[of "then_promise _ _"] taskUpdate s3)
    then show "handler_v2 ecs event w = (settle r3, w3, [?DT, ?RT, ?US])"
      unfolding handler_v2_def promised_def buildPromise_def
      by (simp add: valid svc yes)
  qed
qed

theorem variant2_updates_service_only_when_given_witness:
  "snd (snd (handler_v2 (sample_ecs [])
     (JObj [(''taskFamily'', JStr ''app''), (''containerName'', JStr ''web''),
            (''imageBase'', JStr ''repo/app''), (''imageTag'', JStr ''v2'')]) 0)) =
     [DescribeTaskDefinition (JObj [(''taskDefinition'', JStr ''app'')]),
      RegisterTaskDefinition
        (JObj [(''family'', JStr ''app''),
               (''volumes'', JArr []),
               (''taskRoleArn'', JStr ''role''),
               (''containerDefinitions'',
                  JArr [JObj [(''name'', JStr ''web''), (''image'', JStr ''repo/app:v2''),
                              (''cpu'', JNum ''10'')],
                        JObj sample_log])])] \<and>
   snd (snd (handler_v2 (sample_ecs [])
     (JObj [(''taskFamily'', JStr ''app''), (''containerName'', JStr ''web''),
            (''imageBase'', JStr ''repo/app''), (''imageTag'', JStr ''v2''),
            (''service'', JStr ''svc'')]) 0)) =
     [DescribeTaskDefinition (JObj [(''taskDefinition'', JStr ''app'')]),
      RegisterTaskDefinition
        (JObj [(''family'', JStr ''app''),
               (''volumes'', JArr []),
               (''taskRoleArn'', JStr ''role''),
               (''containerDefinitions'',
                  JArr [JObj [(''name'', JStr ''web''), (''image'', JStr ''repo/app:v2''),
                              (''cpu'', JNum ''10'')],
                        JObj sample_log])]),
      UpdateService (JObj [(''cluster'', JStr ''default''), (''service'', JStr ''svc''),
                           (''taskDefinition'', JStr ''arn:app:4'')])]"
proof -
  let ?e = "JObj [(''taskFamily'', JStr ''app''), (''containerName'', JStr ''web''),
                  (''imageBase'', JStr ''repo/app''), (''imageTag'', JStr ''v2'')]"
  let ?e' = "JObj [(''taskFamily'', JStr ''app''), (''containerName'', JStr ''web''),
                   (''imageBase'', JStr ''repo/app''), (''imageTag'', JStr ''v2''),
                   (''service'', JStr ''svc'')]"
  let ?p = "\<lparr> cluster = JStr ''default'', service = JUndefined, containerName = JStr ''web'',
               imageBase = JStr ''repo/app'', imageTag = JStr ''v2'',
               image_field = JStr ''repo/app:v2'', taskFamily = JStr ''app'' \<rparr>"
  let ?p' = "\<lparr> cluster = JStr ''default'', service = JStr ''svc'', containerName = JStr ''web'',
                imageBase = JStr ''repo/app'', imageTag = JStr ''v2'',
                image_field = JStr ''repo/app:v2'', taskFamily = JStr ''app'' \<rparr>"
  let ?r1 = "JObj [(''taskDefinition'', JObj sample_task)]"
  let ?req = "JObj [(''family'', JStr ''app''),
               (''volumes'', JArr []),
               (''taskRoleArn'', JStr ''role''),
               (''containerDefinitions'',
                  JArr [JObj [(''name'', JStr ''web''), (''image'', JStr ''repo/app:v2''),
                              (''cpu'', JNum ''10'')],
                        JObj sample_log])]"
  let ?task = "JObj [(''taskDefinitionArn'', JStr ''arn:app:4''), (''registered'', ?req)]"
  let ?r2 = "JObj [(''taskDefinition'', ?task)]"
  let ?us = "JObj [(''cluster'', JStr ''default''), (''service'', JStr ''svc''),
                   (''taskDefinition'', JStr ''arn:app:4'')]"
  have valid: "DeployParams_v2 ?e = Inr ?p"
    by (simp add: DeployParams_v2_def required_errors_def requiredParams_v2_def Let_def
        js_or_def string_plus_def)
  have valid': "DeployParams_v2 ?e' = Inr ?p'"
    by (simp add: DeployParams_v2_def required_errors_def requiredParams_v2_def Let_def
        js_or_def string_plus_def)
  have dt: "sample_ecs [] (DescribeTaskDefinition (JObj [(''taskDefinition'', taskFamily ?p)])) 0 =
      (Inr ?r1, 1)"
    by (simp add: sample_ecs_def)
  have dt': "sample_ecs [] (DescribeTaskDefinition (JObj [(''taskDefinition'', taskFamily ?p')])) 0 =
      (Inr ?r1, 1)"
    by (simp add: sample_ecs_def)
  have described: "get_prop ?r1 ''taskDefinition'' = Inr (JObj sample_task)"
    by simp
  have containers: "lookup_prop (JObj sample_task) ''containerDefinitions'' =
      JArr (map JObj [sample_web, sample_log])"
    by (simp add: sample_task_def)
  have req: "?req = JObj [(''family'', lookup_prop (JObj sample_task) ''family''),
                (''volumes'', lookup_prop (JObj sample_task) ''volumes''),
                (''taskRoleArn'', lookup_prop (JObj sample_task) ''taskRoleArn''),
                (''containerDefinitions'',
                   JArr (map JObj (map (\<lambda>c.
                     if strict_eq (lookup_prop (JObj c) ''name'') (containerName ?p)
                     then assign c ''image'' (image_field ?p) else c) [sample_web, sample_log])))]"
    by (simp add: sample_task_def sample_web_def sample_log_def)
  have req': "?req = JObj [(''family'', lookup_prop (JObj sample_task) ''family''),
                (''volumes'', lookup_prop (JObj sample_task) ''volumes''),
                (''taskRoleArn'', lookup_prop (JObj sample_task) ''taskRoleArn''),
                (''containerDefinitions'',
                   JArr (map JObj (map (\<lambda>c.
                     if strict_eq (lookup_prop (JObj c) ''name'') (containerName ?p')
                     then assign c ''image'' (image_field ?p') else c) [sample_web, sample_log])))]"
    by (simp add: sample_task_def sample_web_def sample_log_def)
  have rt: "sample_ecs [] (RegisterTaskDefinition ?req) 1 = (Inr ?r2, 2)"
    by (simp add: sample_ecs_def)
  have registered: "get_prop ?r2 ''taskDefinition'' = Inr ?task"
    by simp
  have arn: "get_prop ?task ''taskDefinitionArn'' = Inr (JStr ''arn:app:4'')"
    by simp
  have us: "sample_ecs [] (UpdateService (JObj [(''cluster'', cluster ?p'),
      (''service'', service ?p'), (''taskDefinition'', JStr ''arn:app:4'')])) 2 =
      (Inr (JObj [(''service'', ?us)]), 3)"
    by (simp add: sample_ecs_def)
  note without = variant2_updates_service_only_when_given
    [where ecs = "sample_ecs []", OF valid dt described containers req rt]
  note given = variant2_updates_service_only_when_given
    [where ecs = "sample_ecs []", OF valid' dt' described containers req' rt]
  have no: "\<not> truthy (lookup_prop ?e ''service'')"
    by simp
  have yes: "truthy (lookup_prop ?e' ''service'')"
    by simp
  from without[THEN conjunct1, rule_format, OF no, THEN conjunct1]
  have a: "handler_v2 (sample_ecs []) ?e 0 =
      (Inr ?r2, 2, [DescribeTaskDefinition (JObj [(''taskDefinition'', JStr ''app'')]),
                    RegisterTaskDefinition ?req])"
    by simp
  from given[THEN conjunct2, rule_format, OF yes registered arn us] have b:
    "handler_v2 (sample_ecs []) ?e' 0 =
      (Inr (JObj [(''service'', ?us)]), 3,
       [DescribeTaskDefinition (JObj [(''taskDefinition'', JStr ''app'')]),
        RegisterTaskDefinition ?req,
        UpdateService ?us])"
    by simp
  show ?thesis
    by (simp only: a b snd_conv simp_thms)
qed

end
